theory Spec2Isabelle
  imports Main "HOL-Library.Word"
begin

unbundle bit_operations_syntax

section \<open>The toolkit values the program handles\<close>

text \<open>
  Crosshair.py is one module: the function \<open>make_window_click_through\<close>, the class
  \<open>CrosshairOverlay\<close> (the overlay surface) and the class \<open>CrosshairSettingsUI\<close> (the
  settings panel). Both classes are Qt widgets. The embedding keeps, of each toolkit
  object, the part of its state the module reads or writes, and records every painter
  call of \<open>paintEvent\<close> in the order it is made.
\<close>

subsection \<open>QColor\<close>

text \<open>
  A colour is its four channels and the validity flag that \<open>QColor.isValid()\<close> reads.
  \<open>QColorDialog.getColor()\<close> returns an invalid colour when the dialog is cancelled.
\<close>

record qcolor =
  isValid :: bool
  red :: nat
  green :: nat
  blue :: nat
  alpha :: nat

definition QColor :: "nat \<Rightarrow> nat \<Rightarrow> nat \<Rightarrow> nat \<Rightarrow> qcolor" where
  "QColor r g b a = \<lparr>isValid = True, red = r, green = g, blue = b, alpha = a\<rparr>"

subsection \<open>QPoint and QRect\<close>

text \<open>
  Qt keeps a rectangle as its two corners, both inside the rectangle, so that a
  rectangle of width \<open>w\<close> at \<open>x\<close> has \<open>right = x + w - 1\<close>. Its integer divisions are
  those of C++ and truncate towards zero.
\<close>

definition cdiv2 :: "int \<Rightarrow> int" where
  "cdiv2 a = (if 0 \<le> a then a div 2 else - ((- a) div 2))"

record qrect =
  r_left :: int
  r_top :: int
  r_right :: int
  r_bottom :: int

definition QRect :: "int \<Rightarrow> int \<Rightarrow> int \<Rightarrow> int \<Rightarrow> qrect" where
  "QRect x y w h = \<lparr>r_left = x, r_top = y, r_right = x + w - 1, r_bottom = y + h - 1\<rparr>"

definition rect_width :: "qrect \<Rightarrow> int" where
  "rect_width r = r_right r - r_left r + 1"

definition rect_height :: "qrect \<Rightarrow> int" where
  "rect_height r = r_bottom r - r_top r + 1"

definition center :: "qrect \<Rightarrow> int \<times> int" where
  "center r = (cdiv2 (r_left r + r_right r), cdiv2 (r_top r + r_bottom r))"

definition moveCenter :: "qrect \<Rightarrow> int \<times> int \<Rightarrow> qrect" where
  "moveCenter r p =
     (let w = r_right r - r_left r;
          h = r_bottom r - r_top r;
          x1 = fst p - cdiv2 w;
          y1 = snd p - cdiv2 h
      in \<lparr>r_left = x1, r_top = y1, r_right = x1 + w, r_bottom = y1 + h\<rparr>)"

subsection \<open>QPixmap\<close>

text \<open>
  A pixmap is its dimensions and its pixel data, here a key that names the data. The
  null pixmap has no data and zero width and height; Qt makes no pixmap with data
  unless both dimensions are positive.
\<close>

record qpixmap =
  pm_width :: int
  pm_height :: int
  pm_data :: nat

definition null_pixmap :: qpixmap where
  "null_pixmap = \<lparr>pm_width = 0, pm_height = 0, pm_data = 0\<rparr>"

definition isNull :: "qpixmap \<Rightarrow> bool" where
  "isNull pm = (pm_width pm \<le> 0 \<or> pm_height pm \<le> 0)"

definition pixmap_rect :: "qpixmap \<Rightarrow> qrect" where
  "pixmap_rect pm = QRect 0 0 (pm_width pm) (pm_height pm)"

text \<open>
  The files the image decoders can read: \<open>files path\<close> is the decoded bitmap, or \<open>None\<close>
  when there is no such file or its decoding fails. The constructor \<open>QPixmap(path)\<close>
  raises nothing: where the file cannot be loaded, the new pixmap is the null pixmap.
\<close>

type_synonym files = "string \<Rightarrow> qpixmap option"

definition QPixmap :: "files \<Rightarrow> string \<Rightarrow> qpixmap" where
  "QPixmap files image_path =
     (case files image_path of None \<Rightarrow> null_pixmap | Some pm \<Rightarrow> pm)"

text \<open>
  The attribute \<open>crosshair_image\<close> holds either Python's \<open>None\<close> or a \<open>QPixmap\<close> object.
  The truth test \<open>if self.crosshair_image:\<close> is false for \<open>None\<close>. The PyQt5 class
  \<open>QPixmap\<close> defines neither \<open>__bool__\<close> nor \<open>__len__\<close>, so the test is true for every
  pixmap object, the null pixmap too.
\<close>

fun truthy :: "qpixmap option \<Rightarrow> bool" where
  "truthy None = False"
| "truthy (Some pm) = True"

subsection \<open>Integers handed to Qt\<close>

text \<open>
  Python's integers are unbounded; a Qt method that takes a C \<open>int\<close> gets its argument
  through PyQt5's conversion, which raises \<open>OverflowError\<close>, without calling the method,
  for a value outside the range of a 32-bit signed integer.
\<close>

datatype py_error = OverflowError

definition c_int :: "int \<Rightarrow> bool" where
  "c_int i = (- 2147483648 \<le> i \<and> i \<le> 2147483647)"

subsection \<open>QPen and QPainter\<close>

text \<open>
  A pen is its colour and its width. The painter keeps its current pen and the drawing
  calls made so far; a line is recorded with the pen it was drawn with.
\<close>

record qpen =
  pen_color :: qcolor
  pen_width :: int

datatype draw_call =
  DrawPixmap qrect qpixmap
| DrawLine qpen int int int int

record qpainter =
  pen :: qpen
  calls :: "draw_call list"

text \<open>
  A painter opened on a widget starts with a pen of width 1; \<open>paintEvent\<close> sets the pen
  before it draws a line.
\<close>

definition QPainter :: qpainter where
  "QPainter = \<lparr>pen = \<lparr>pen_color = QColor 0 0 0 255, pen_width = 1\<rparr>, calls = []\<rparr>"

text \<open>
  \<open>painter.setPen(color)\<close>: a solid pen of width 1 in that colour, or in black when the
  colour is not valid.
\<close>

definition setPen_color :: "qpainter \<Rightarrow> qcolor \<Rightarrow> qpainter" where
  "setPen_color p c =
     p\<lparr>pen := \<lparr>pen_color = (if isValid c then c else QColor 0 0 0 255), pen_width = 1\<rparr>\<rparr>"

definition setPen :: "qpainter \<Rightarrow> qpen \<Rightarrow> qpainter" where
  "setPen p pn = p\<lparr>pen := pn\<rparr>"

text \<open>
  \<open>pen.setWidth(w)\<close>: Qt leaves the pen as it is, with a warning, for a width below 0
  or from 32768 up.
\<close>

definition setWidth :: "qpen \<Rightarrow> int \<Rightarrow> py_error + qpen" where
  "setWidth pn w =
     (if \<not> c_int w then Inl OverflowError
      else if w < 0 \<or> 32768 \<le> w then Inr pn
      else Inr (pn\<lparr>pen_width := w\<rparr>))"

definition drawPixmap :: "qpainter \<Rightarrow> qrect \<Rightarrow> qpixmap \<Rightarrow> qpainter" where
  "drawPixmap p r pm = p\<lparr>calls := calls p @ [DrawPixmap r pm]\<rparr>"

definition drawLine :: "qpainter \<Rightarrow> int \<Rightarrow> int \<Rightarrow> int \<Rightarrow> int \<Rightarrow> py_error + qpainter" where
  "drawLine p x1 y1 x2 y2 =
     (if c_int x1 \<and> c_int y1 \<and> c_int x2 \<and> c_int y2
      then Inr (p\<lparr>calls := calls p @ [DrawLine (pen p) x1 y1 x2 y2]\<rparr>)
      else Inl OverflowError)"

text \<open>
  \<open>draws\<close> is false for the recorded calls that leave the surface as it was:
  \<open>QPainter.drawPixmap\<close> returns at once when the pixmap is null, and a line in a pen of
  alpha 0 changes no pixel.
\<close>

fun draws :: "draw_call \<Rightarrow> bool" where
  "draws (DrawPixmap r pm) = (\<not> isNull pm)"
| "draws (DrawLine pn x1 y1 x2 y2) = (alpha (pen_color pn) \<noteq> 0)"

fun is_line :: "draw_call \<Rightarrow> bool" where
  "is_line (DrawPixmap r pm) = False"
| "is_line (DrawLine pn x1 y1 x2 y2) = True"

text \<open>
  How a call of \<open>paintEvent\<close> ends: it returns, or an exception leaves it; either way
  with the drawing calls made up to then.
\<close>

datatype paint_result =
  Returned "draw_call list"
| Raised py_error "draw_call list"

fun drawn :: "paint_result \<Rightarrow> draw_call list" where
  "drawn (Returned cs) = cs"
| "drawn (Raised e cs) = cs"

section \<open>make\_window\_click\_through\<close>

text \<open>
  The windows of user32: a handle that names a window gives the window's 32-bit values,
  by index (\<open>GWL_EXSTYLE\<close> is index -20). \<open>GetWindowLongW\<close> returns the value as a
  signed C long, which ctypes hands to Python as an integer; it returns 0 for a handle
  that names no window. \<open>SetWindowLongW\<close> takes the low 32 bits of its argument, stores
  them and returns the previous value; for a handle that names no window it stores
  nothing and returns 0.
\<close>

type_synonym user32 = "int \<Rightarrow> (int \<Rightarrow> 32 word) option"

definition WS_EX_LAYERED :: int where
  "WS_EX_LAYERED = 0x80000"

definition WS_EX_TRANSPARENT :: int where
  "WS_EX_TRANSPARENT = 0x20"

definition GWL_EXSTYLE :: int where
  "GWL_EXSTYLE = -20"

definition GetWindowLongW :: "user32 \<Rightarrow> int \<Rightarrow> int \<Rightarrow> int" where
  "GetWindowLongW u hwnd idx = (case u hwnd of None \<Rightarrow> 0 | Some win \<Rightarrow> sint (win idx))"

definition SetWindowLongW :: "user32 \<Rightarrow> int \<Rightarrow> int \<Rightarrow> int \<Rightarrow> user32 \<times> int" where
  "SetWindowLongW u hwnd idx v =
     (case u hwnd of
        None \<Rightarrow> (u, 0)
      | Some win \<Rightarrow> (u(hwnd \<mapsto> win(idx := word_of_int v)), sint (win idx)))"

text \<open>The result of \<open>SetWindowLongW\<close> is dropped; what is left is the new window table.\<close>

definition make_window_click_through :: "user32 \<Rightarrow> int \<Rightarrow> user32" where
  "make_window_click_through u window_id =
     (let hwnd = window_id;
          extended_style = GetWindowLongW u hwnd GWL_EXSTYLE
      in fst (SetWindowLongW u hwnd GWL_EXSTYLE
                (extended_style OR WS_EX_LAYERED OR WS_EX_TRANSPARENT)))"

section \<open>CrosshairOverlay\<close>

text \<open>
  The attributes the class sets, and of the widget below it: its geometry, whether the
  window is shown (\<open>show()\<close> and \<open>hide()\<close>), and how many times \<open>update()\<close>, the request
  for a repaint, has been called.
\<close>

record overlay =
  geo_width :: int
  geo_height :: int
  shown :: bool
  update_calls :: nat
  crosshair_visible :: bool
  default_size :: int
  default_thickness :: int
  default_color :: qcolor
  size_val :: int
  thickness :: int
  color :: qcolor
  crosshair_image :: "qpixmap option"

definition show_widget :: "overlay \<Rightarrow> overlay" where
  "show_widget s = s\<lparr>shown := True\<rparr>"

definition hide_widget :: "overlay \<Rightarrow> overlay" where
  "hide_widget s = s\<lparr>shown := False\<rparr>"

definition update_widget :: "overlay \<Rightarrow> overlay" where
  "update_widget s = s\<lparr>update_calls := Suc (update_calls s)\<rparr>"

definition widget_rect :: "overlay \<Rightarrow> qrect" where
  "widget_rect s = QRect 0 0 (geo_width s) (geo_height s)"

definition reset_to_default :: "overlay \<Rightarrow> overlay" where
  "reset_to_default s =
     update_widget (s\<lparr>size_val := default_size s,
                      thickness := default_thickness s,
                      color := default_color s,
                      crosshair_image := None\<rparr>)"

definition update_overlay :: "overlay \<Rightarrow> overlay" where
  "update_overlay s = (if crosshair_visible s then show_widget s else hide_widget s)"

definition toggle_crosshair :: "overlay \<Rightarrow> bool \<Rightarrow> overlay" where
  "toggle_crosshair s visible = s\<lparr>crosshair_visible := visible\<rparr>"

definition set_size :: "overlay \<Rightarrow> int \<Rightarrow> overlay" where
  "set_size s n = update_widget (s\<lparr>size_val := n\<rparr>)"

definition set_thickness :: "overlay \<Rightarrow> int \<Rightarrow> overlay" where
  "set_thickness s n = update_widget (s\<lparr>thickness := n\<rparr>)"

definition set_color :: "overlay \<Rightarrow> qcolor \<Rightarrow> overlay" where
  "set_color s c = update_widget (s\<lparr>color := c\<rparr>)"

definition load_custom_crosshair :: "files \<Rightarrow> overlay \<Rightarrow> string \<Rightarrow> overlay" where
  "load_custom_crosshair files s image_path =
     update_widget (s\<lparr>crosshair_image := Some (QPixmap files image_path)\<rparr>)"

text \<open>
  \<open>paintEvent\<close> changes no attribute; its result is the list of drawing calls it made
  on its painter, empty when it returns before opening one, and whether it returned or
  raised. In the image branch the attribute is a pixmap object, \<open>None\<close> being false in
  the test that guards the branch.
\<close>

definition paintEvent :: "overlay \<Rightarrow> paint_result" where
  "paintEvent s =
     (if \<not> crosshair_visible s then Returned []
      else
        let painter = QPainter in
        if truthy (crosshair_image s) then
          (case crosshair_image s of
             Some img \<Rightarrow>
               let image_rect = pixmap_rect img;
                   image_rect = moveCenter image_rect (center (widget_rect s))
               in Returned (calls (drawPixmap painter image_rect img))
           | None \<Rightarrow> Returned (calls painter))
        else
          let painter = setPen_color painter (color s);
              mid_x = geo_width s div 2;
              mid_y = geo_height s div 2;
              pn = pen painter
          in case setWidth pn (thickness s) of
               Inl e \<Rightarrow> Raised e (calls painter)
             | Inr pn \<Rightarrow>
                 let painter = setPen painter pn
                 in case drawLine painter (mid_x - size_val s) mid_y (mid_x + size_val s) mid_y of
                      Inl e \<Rightarrow> Raised e (calls painter)
                    | Inr painter \<Rightarrow>
                        (case drawLine painter mid_x (mid_y - size_val s)
                                mid_x (mid_y + size_val s) of
                           Inl e \<Rightarrow> Raised e (calls painter)
                         | Inr painter \<Rightarrow> Returned (calls painter)))"

text \<open>
  The constructor, up to \<open>self.show()\<close>: the geometry is the desktop's, the flag is
  off, the defaults are stored and applied, the window is shown. The timer it starts
  calls \<open>update_overlay\<close> every 16 ms. The attributes that \<open>reset_to_default\<close> assigns
  do not exist before it runs; the record holds placeholders there, all overwritten.
\<close>

definition init_widget :: "int \<Rightarrow> int \<Rightarrow> overlay" where
  "init_widget desktop_width desktop_height =
     show_widget
       (reset_to_default
          \<lparr>geo_width = desktop_width, geo_height = desktop_height,
           shown = False, update_calls = 0,
           crosshair_visible = False,
           default_size = 15, default_thickness = 2,
           default_color = QColor 255 0 0 255,
           size_val = 0, thickness = 0, color = QColor 0 0 0 0,
           crosshair_image = None\<rparr>)"

text \<open>The whole constructor: the widget, then the click-through call on its window.\<close>

definition CrosshairOverlay_init :: "int \<Rightarrow> int \<Rightarrow> int \<Rightarrow> user32 \<Rightarrow> overlay \<times> user32" where
  "CrosshairOverlay_init desktop_width desktop_height winId u =
     (init_widget desktop_width desktop_height, make_window_click_through u winId)"

section \<open>CrosshairSettingsUI\<close>

text \<open>Python's \<open>str\<close> of an integer, as the f-strings of the labels format it.\<close>

fun str_nat :: "nat \<Rightarrow> string" where
  "str_nat n =
     (if n < 10 then [''0123456789'' ! n]
      else str_nat (n div 10) @ [''0123456789'' ! (n mod 10)])"

declare str_nat.simps [simp del]

definition str_int :: "int \<Rightarrow> string" where
  "str_int i = (if i < 0 then CHR ''-'' # str_nat (nat (- i)) else str_nat (nat i))"

text \<open>
  The panel holds the overlay it configures, the texts of its three labels, the values
  of its three sliders, and the text and the checked state of the enable button.
\<close>

record settings_ui =
  crosshair_overlay :: overlay
  size_label :: string
  size_slider :: int
  thickness_label :: string
  thickness_slider :: int
  fov_label :: string
  fov_slider :: int
  crosshair_button_text :: string
  crosshair_button_checked :: bool

definition init_ui :: "overlay \<Rightarrow> settings_ui" where
  "init_ui ov =
     \<lparr>crosshair_overlay = ov,
      size_label = ''Crosshair Size: '' @ str_int (size_val ov),
      size_slider = size_val ov,
      thickness_label = ''Crosshair Thickness: '' @ str_int (thickness ov),
      thickness_slider = thickness ov,
      fov_label = ''Field of View (FOV): '' @ str_int 90,
      fov_slider = 90,
      crosshair_button_text = ''Enable Crosshair'',
      crosshair_button_checked = False\<rparr>"

definition update_size :: "settings_ui \<Rightarrow> int \<Rightarrow> settings_ui" where
  "update_size ui v =
     (let ui = ui\<lparr>size_label := ''Crosshair Size: '' @ str_int v\<rparr>
      in ui\<lparr>crosshair_overlay := set_size (crosshair_overlay ui) v\<rparr>)"

definition update_thickness :: "settings_ui \<Rightarrow> int \<Rightarrow> settings_ui" where
  "update_thickness ui v =
     (let ui = ui\<lparr>thickness_label := ''Crosshair Thickness: '' @ str_int v\<rparr>
      in ui\<lparr>crosshair_overlay := set_thickness (crosshair_overlay ui) v\<rparr>)"

definition update_fov :: "settings_ui \<Rightarrow> int \<Rightarrow> settings_ui" where
  "update_fov ui v = ui\<lparr>fov_label := ''Field of View (FOV): '' @ str_int v\<rparr>"

text \<open>
  The two dialogs are outside the module: the handlers take what the dialog returned,
  an invalid colour or the empty path when it was cancelled.
\<close>

definition choose_color :: "settings_ui \<Rightarrow> qcolor \<Rightarrow> settings_ui" where
  "choose_color ui c =
     (if isValid c then ui\<lparr>crosshair_overlay := set_color (crosshair_overlay ui) c\<rparr>
      else ui)"

definition upload_custom_crosshair :: "files \<Rightarrow> settings_ui \<Rightarrow> string \<Rightarrow> settings_ui" where
  "upload_custom_crosshair files ui file_path =
     (if file_path \<noteq> []
      then ui\<lparr>crosshair_overlay :=
                load_custom_crosshair files (crosshair_overlay ui) file_path\<rparr>
      else ui)"

definition remove_custom_crosshair :: "settings_ui \<Rightarrow> settings_ui" where
  "remove_custom_crosshair ui =
     ui\<lparr>crosshair_overlay := reset_to_default (crosshair_overlay ui)\<rparr>"

definition ui_toggle_crosshair :: "settings_ui \<Rightarrow> settings_ui" where
  "ui_toggle_crosshair ui =
     (if crosshair_button_checked ui
      then ui\<lparr>crosshair_button_text := ''Disable Crosshair'',
              crosshair_overlay := toggle_crosshair (crosshair_overlay ui) True\<rparr>
      else ui\<lparr>crosshair_button_text := ''Enable Crosshair'',
              crosshair_overlay := toggle_crosshair (crosshair_overlay ui) False\<rparr>)"

section \<open>Runs of the program\<close>

text \<open>
  The calls that can reach a constructed overlay, one after the other on the single UI
  thread: its methods, and the timer's tick, which calls \<open>update_overlay\<close>.
\<close>

datatype call =
  Reset
| Tick
| Toggle bool
| SetSize int
| SetThickness int
| SetColor qcolor
| Load string

fun do_call :: "files \<Rightarrow> overlay \<Rightarrow> call \<Rightarrow> overlay" where
  "do_call files s Reset = reset_to_default s"
| "do_call files s Tick = update_overlay s"
| "do_call files s (Toggle b) = toggle_crosshair s b"
| "do_call files s (SetSize n) = set_size s n"
| "do_call files s (SetThickness n) = set_thickness s n"
| "do_call files s (SetColor c) = set_color s c"
| "do_call files s (Load image_path) = load_custom_crosshair files s image_path"

definition run :: "files \<Rightarrow> overlay \<Rightarrow> call list \<Rightarrow> overlay" where
  "run files s cs = foldl (do_call files) s cs"

text \<open>
  The events of the running application: a slider moved to a value, a dialog closed
  with its result, a button clicked, the timer's tick. A slider takes its new value and
  the enable button flips its checked state before the handler runs.
\<close>

datatype event =
  SizeSlider int
| ThicknessSlider int
| FovSlider int
| ColorDialog qcolor
| FileDialog string
| RemoveClicked
| EnableClicked
| TimerTick

fun handle :: "files \<Rightarrow> settings_ui \<Rightarrow> event \<Rightarrow> settings_ui" where
  "handle files ui (SizeSlider v) = update_size (ui\<lparr>size_slider := v\<rparr>) v"
| "handle files ui (ThicknessSlider v) = update_thickness (ui\<lparr>thickness_slider := v\<rparr>) v"
| "handle files ui (FovSlider v) = update_fov (ui\<lparr>fov_slider := v\<rparr>) v"
| "handle files ui (ColorDialog c) = choose_color ui c"
| "handle files ui (FileDialog file_path) = upload_custom_crosshair files ui file_path"
| "handle files ui RemoveClicked = remove_custom_crosshair ui"
| "handle files ui EnableClicked =
     ui_toggle_crosshair (ui\<lparr>crosshair_button_checked := \<not> crosshair_button_checked ui\<rparr>)"
| "handle files ui TimerTick =
     ui\<lparr>crosshair_overlay := update_overlay (crosshair_overlay ui)\<rparr>"

definition main_init :: "int \<Rightarrow> int \<Rightarrow> settings_ui" where
  "main_init desktop_width desktop_height = init_ui (init_widget desktop_width desktop_height)"

definition session :: "files \<Rightarrow> settings_ui \<Rightarrow> event list \<Rightarrow> settings_ui" where
  "session files ui es = foldl (handle files) ui es"

section \<open>Example values and predicates of the statements\<close>

text \<open>
  A window table with one window, handle 7, whose extended style has the bits
  \<open>0x100\<close> and \<open>0x8\<close> set.
\<close>

definition example_windows :: user32 where
  "example_windows = (\<lambda>h. if h = 7 then Some (\<lambda>idx. if idx = - 20 then 0x108 else 0x10000000) else None)"

text \<open>
  A file system with one image that decodes, 32 by 32 pixels; every other path fails.
\<close>

definition example_files :: files where
  "example_files =
     (\<lambda>p. if p = ''good.png'' then Some \<lparr>pm_width = 32, pm_height = 32, pm_data = 1\<rparr> else None)"

text \<open>The overlay as the constructor leaves it on a desktop of 1920 by 1080.\<close>

definition example_overlay :: overlay where
  "example_overlay = init_widget 1920 1080"

text \<open>A cancelled colour dialog's result, and blue.\<close>

definition cancelled_color :: qcolor where
  "cancelled_color = \<lparr>isValid = False, red = 0, green = 0, blue = 0, alpha = 0\<rparr>"

definition blue_color :: qcolor where
  "blue_color = QColor 0 0 255 255"

text \<open>
  The calls that leave a loaded image in place: every call but a reset and a load of a
  file that decodes.
\<close>

fun keeps_failed_image :: "files \<Rightarrow> call \<Rightarrow> bool" where
  "keeps_failed_image files Reset = False"
| "keeps_failed_image files (Load image_path) = (files image_path = None)"
| "keeps_failed_image files c = True"

text \<open>
  The arguments of the two \<open>drawLine\<close> calls of \<open>paintEvent\<close>, and the thickness, fit a
  C \<open>int\<close>.
\<close>

definition horizontal_fits :: "overlay \<Rightarrow> bool" where
  "horizontal_fits s =
     (c_int (geo_width s div 2 - size_val s) \<and> c_int (geo_height s div 2) \<and>
      c_int (geo_width s div 2 + size_val s))"

definition vertical_fits :: "overlay \<Rightarrow> bool" where
  "vertical_fits s =
     (c_int (geo_width s div 2) \<and> c_int (geo_height s div 2 - size_val s) \<and>
      c_int (geo_height s div 2 + size_val s))"

text \<open>The pen the line branch of \<open>paintEvent\<close> has when it draws.\<close>

definition stroke_pen :: "overlay \<Rightarrow> qpen" where
  "stroke_pen s =
     \<lparr>pen_color = (if isValid (color s) then color s else QColor 0 0 0 255),
      pen_width = (if 0 \<le> thickness s \<and> thickness s < 32768 then thickness s else 1)\<rparr>"

section \<open>The click-through call\<close>

lemma style_word:
  "(word_of_int (sint (w::32 word) OR WS_EX_LAYERED OR WS_EX_TRANSPARENT) :: 32 word) = w OR 0x80000 OR 0x20"
  by (simp add: WS_EX_LAYERED_def WS_EX_TRANSPARENT_def of_int_or_eq)

lemma sint_layered: "sint (0x80000 :: 32 word) = 0x80000"
  by simp

lemma sint_transparent: "sint (0x20 :: 32 word) = 0x20"
  by simp

lemma sint_style:
  "sint ((w::32 word) OR 0x80000 OR 0x20) = sint w OR WS_EX_LAYERED OR WS_EX_TRANSPARENT"
  unfolding WS_EX_LAYERED_def WS_EX_TRANSPARENT_def
  by (simp only: signed_or_eq sint_layered sint_transparent)

lemma bit_layered: "bit (0x80000 :: int) n \<longleftrightarrow> n = 19"
proof -
  have "(0x80000 :: int) = 2 ^ 19" by simp
  then show ?thesis by (auto simp only: bit_exp_iff) simp_all
qed

lemma bit_transparent: "bit (0x20 :: int) n \<longleftrightarrow> n = 5"
proof -
  have "(0x20 :: int) = 2 ^ 5" by simp
  then show ?thesis by (auto simp only: bit_exp_iff) simp_all
qed

lemma click_through_store:
  "u hwnd = Some win \<Longrightarrow>
   make_window_click_through u hwnd =
     u(hwnd \<mapsto> win(GWL_EXSTYLE := win GWL_EXSTYLE OR 0x80000 OR 0x20))"
  by (simp add: make_window_click_through_def GetWindowLongW_def SetWindowLongW_def style_word)

lemma click_through_no_window:
  "u hwnd = None \<Longrightarrow> make_window_click_through u hwnd = u"
  by (simp add: make_window_click_through_def GetWindowLongW_def SetWindowLongW_def)

lemma click_through_read_back:
  assumes "u hwnd = Some win"
  shows "GetWindowLongW (make_window_click_through u hwnd) hwnd GWL_EXSTYLE =
         GetWindowLongW u hwnd GWL_EXSTYLE OR WS_EX_LAYERED OR WS_EX_TRANSPARENT"
proof -
  have "GetWindowLongW (make_window_click_through u hwnd) hwnd GWL_EXSTYLE =
        sint (win GWL_EXSTYLE OR 0x80000 OR 0x20)"
    by (simp add: click_through_store [of u hwnd win, OF assms] GetWindowLongW_def)
  moreover have "GetWindowLongW u hwnd GWL_EXSTYLE = sint (win GWL_EXSTYLE)"
    by (simp add: GetWindowLongW_def assms)
  ultimately show ?thesis by (simp only: sint_style)
qed

text \<open>
  C8. For a handle that names a window with extended style \<open>s\<close>, the call leaves the
  window table with that window's extended style replaced by
  \<open>s OR 0x80000 OR 0x20\<close> and every other entry as it was; the value read back is the
  value read before with the two flags ored in, so that bit 19 and bit 5 are set and
  every other bit is as it was. The result of \<open>SetWindowLongW\<close> is not used.
\<close>

theorem click_through_sets_two_flags:
  assumes "u hwnd = Some win"
  shows "make_window_click_through u hwnd =
           u(hwnd \<mapsto> win(GWL_EXSTYLE := win GWL_EXSTYLE OR 0x80000 OR 0x20)) \<and>
         GetWindowLongW (make_window_click_through u hwnd) hwnd GWL_EXSTYLE =
           GetWindowLongW u hwnd GWL_EXSTYLE OR 0x80000 OR 0x20 \<and>
         (\<forall>n. bit (GetWindowLongW (make_window_click_through u hwnd) hwnd GWL_EXSTYLE) n \<longleftrightarrow>
               bit (GetWindowLongW u hwnd GWL_EXSTYLE) n \<or> n = 19 \<or> n = 5)"
proof (intro conjI allI)
  show "make_window_click_through u hwnd =
           u(hwnd \<mapsto> win(GWL_EXSTYLE := win GWL_EXSTYLE OR 0x80000 OR 0x20))"
    using assms by (rule click_through_store)
  show rb: "GetWindowLongW (make_window_click_through u hwnd) hwnd GWL_EXSTYLE =
           GetWindowLongW u hwnd GWL_EXSTYLE OR 0x80000 OR 0x20"
    using click_through_read_back [of u hwnd win, OF assms]
    unfolding WS_EX_LAYERED_def WS_EX_TRANSPARENT_def .
  show "bit (GetWindowLongW (make_window_click_through u hwnd) hwnd GWL_EXSTYLE) n \<longleftrightarrow>
        bit (GetWindowLongW u hwnd GWL_EXSTYLE) n \<or> n = 19 \<or> n = 5" for n
    by (simp only: rb bit_or_iff bit_layered bit_transparent)
qed

theorem click_through_sets_two_flags_witness:
  "example_windows 7 \<noteq> None \<and>
   GetWindowLongW example_windows 7 GWL_EXSTYLE = 0x108 \<and>
   GetWindowLongW (make_window_click_through example_windows 7) 7 GWL_EXSTYLE = 0x80128"
proof -
  have h: "example_windows 7 = Some (\<lambda>idx. if idx = - 20 then 0x108 else 0x10000000)"
    by (simp add: example_windows_def)
  have r: "GetWindowLongW example_windows 7 GWL_EXSTYLE = 0x108"
    by (simp add: GetWindowLongW_def h GWL_EXSTYLE_def)
  have "GetWindowLongW (make_window_click_through example_windows 7) 7 GWL_EXSTYLE =
        GetWindowLongW example_windows 7 GWL_EXSTYLE OR 0x80000 OR 0x20"
    using click_through_sets_two_flags [of example_windows 7, OF h] by (elim conjE)
  then have "GetWindowLongW (make_window_click_through example_windows 7) 7 GWL_EXSTYLE = 0x80128"
    by (simp add: r)
  with h r show ?thesis by simp
qed

text \<open>
  C10. The call is idempotent: made a second time on the same handle it changes
  nothing. It is monotone: every bit set in the extended style before the call is set
  after it.
\<close>

theorem click_through_idempotent_monotone:
  "make_window_click_through (make_window_click_through u hwnd) hwnd =
     make_window_click_through u hwnd \<and>
   (\<forall>n. bit (GetWindowLongW u hwnd GWL_EXSTYLE) n \<longrightarrow>
        bit (GetWindowLongW (make_window_click_through u hwnd) hwnd GWL_EXSTYLE) n)"
proof (cases "u hwnd")
  case None
  then show ?thesis by (simp add: click_through_no_window)
next
  case (Some win)
  define win' where "win' = win(GWL_EXSTYLE := win GWL_EXSTYLE OR 0x80000 OR 0x20)"
  define u' where "u' = make_window_click_through u hwnd"
  have u': "u' = u(hwnd \<mapsto> win')"
    unfolding u'_def win'_def using Some by (rule click_through_store)
  then have "u' hwnd = Some win'" by simp
  then have "make_window_click_through u' hwnd =
       u'(hwnd \<mapsto> win'(GWL_EXSTYLE := win' GWL_EXSTYLE OR 0x80000 OR 0x20))"
    by (rule click_through_store)
  moreover have "win' GWL_EXSTYLE OR 0x80000 OR 0x20 = win' GWL_EXSTYLE"
    unfolding win'_def by (simp add: or.assoc)
  ultimately have idem: "make_window_click_through u' hwnd = u'"
    by (simp add: u')
  have "bit (GetWindowLongW u' hwnd GWL_EXSTYLE) n" if "bit (GetWindowLongW u hwnd GWL_EXSTYLE) n" for n
    unfolding u'_def using that
    by (simp add: click_through_read_back [of u hwnd win, OF Some] bit_or_iff)
  then have "\<forall>n. bit (GetWindowLongW u hwnd GWL_EXSTYLE) n \<longrightarrow>
        bit (GetWindowLongW u' hwnd GWL_EXSTYLE) n"
    by (intro allI impI)
  with idem show ?thesis unfolding u'_def by (rule conjI)
qed

theorem click_through_idempotent_monotone_witness:
  "bit (GetWindowLongW example_windows 7 GWL_EXSTYLE) 3 \<and>
   bit (GetWindowLongW (make_window_click_through example_windows 7) 7 GWL_EXSTYLE) 3 \<and>
   make_window_click_through (make_window_click_through example_windows 7) 7 =
     make_window_click_through example_windows 7"
proof -
  have r: "GetWindowLongW example_windows 7 GWL_EXSTYLE = 0x108"
    by (simp add: GetWindowLongW_def example_windows_def GWL_EXSTYLE_def)
  have "bit (0x108 :: int) 3"
    by simp
  then have b: "bit (GetWindowLongW example_windows 7 GWL_EXSTYLE) 3"
    by (simp only: r)
  have idem: "make_window_click_through (make_window_click_through example_windows 7) 7 =
     make_window_click_through example_windows 7"
    using click_through_idempotent_monotone [of example_windows 7] by (rule conjunct1)
  have "bit (GetWindowLongW (make_window_click_through example_windows 7) 7 GWL_EXSTYLE) 3"
    using click_through_idempotent_monotone [of example_windows 7, THEN conjunct2, THEN spec, of 3] b by (rule mp)
  with b idem show ?thesis by (intro conjI)
qed

section \<open>The overlay's methods\<close>

lemmas overlay_defs =
  reset_to_default_def update_overlay_def toggle_crosshair_def set_size_def
  set_thickness_def set_color_def load_custom_crosshair_def
  update_widget_def show_widget_def hide_widget_def

lemmas ui_defs =
  update_size_def update_thickness_def update_fov_def choose_color_def
  upload_custom_crosshair_def remove_custom_crosshair_def ui_toggle_crosshair_def

lemma do_call_defaults:
  "default_size (do_call files s c) = default_size s \<and>
   default_thickness (do_call files s c) = default_thickness s \<and>
   default_color (do_call files s c) = default_color s"
  by (cases c) (simp_all add: overlay_defs)

lemma run_defaults:
  "default_size (run files s cs) = default_size s \<and>
   default_thickness (run files s cs) = default_thickness s \<and>
   default_color (run files s cs) = default_color s"
  unfolding run_def
  by (induction cs arbitrary: s) (simp_all add: do_call_defaults)

lemma init_widget_defaults:
  "default_size (init_widget dw dh) = 15 \<and>
   default_thickness (init_widget dw dh) = 2 \<and>
   default_color (init_widget dw dh) = QColor 255 0 0 255"
  by (simp add: init_widget_def overlay_defs)

text \<open>
  C4. Each of \<open>set_size\<close>, \<open>set_thickness\<close> and \<open>set_color\<close> stores its argument, whatever
  it is, in its own attribute and calls \<open>update()\<close> once; every other attribute, the
  image and the visibility flag among them, is as it was.
\<close>

theorem setters_store_and_frame:
  "set_size s n = s\<lparr>size_val := n, update_calls := Suc (update_calls s)\<rparr> \<and>
   set_thickness s n = s\<lparr>thickness := n, update_calls := Suc (update_calls s)\<rparr> \<and>
   set_color s c = s\<lparr>color := c, update_calls := Suc (update_calls s)\<rparr> \<and>
   size_val (set_size s n) = n \<and>
   thickness (set_thickness s n) = n \<and>
   color (set_color s c) = c \<and>
   crosshair_image (set_size s n) = crosshair_image s \<and>
   crosshair_image (set_thickness s n) = crosshair_image s \<and>
   crosshair_image (set_color s c) = crosshair_image s \<and>
   crosshair_visible (set_size s n) = crosshair_visible s \<and>
   crosshair_visible (set_thickness s n) = crosshair_visible s \<and>
   crosshair_visible (set_color s c) = crosshair_visible s"
  by (simp add: set_size_def set_thickness_def set_color_def update_widget_def)

text \<open>
  C2. In every state a constructed overlay can be brought to by calls of its methods
  and timer ticks, and for every size, thickness, colour and image in place of the
  current ones, \<open>reset_to_default\<close> leaves size 15, thickness 2, the colour opaque red
  and no image, changes nothing else, and calls \<open>update()\<close> once.
\<close>

theorem reset_to_default_restores_defaults:
  "reset_to_default
     ((run files (init_widget dw dh) cs)
        \<lparr>size_val := a, thickness := b, color := c, crosshair_image := img\<rparr>) =
   (run files (init_widget dw dh) cs)
     \<lparr>size_val := 15, thickness := 2, color := QColor 255 0 0 255, crosshair_image := None,
      update_calls := Suc (update_calls (run files (init_widget dw dh) cs))\<rparr> \<and>
   QColor 255 0 0 255 = \<lparr>isValid = True, red = 255, green = 0, blue = 0, alpha = 255\<rparr>"
  by (simp add: reset_to_default_def update_widget_def QColor_def
        run_defaults [of files "init_widget dw dh" cs] init_widget_defaults)

lemma do_call_shown: "c \<noteq> Tick \<Longrightarrow> shown (do_call files s c) = shown s"
  by (cases c) (simp_all add: overlay_defs)

lemma handle_shown:
  "e \<noteq> TimerTick \<Longrightarrow>
   shown (crosshair_overlay (handle files ui e)) = shown (crosshair_overlay ui)"
  by (cases e) (simp_all add: ui_defs overlay_defs Let_def)

lemma toggles_last: "crosshair_visible (foldl toggle_crosshair s (bs @ [b])) = b"
  by (simp add: toggle_crosshair_def)

lemma run_shown_without_tick: "Tick \<notin> set cs \<Longrightarrow> shown (run files s cs) = shown s"
proof (induction cs arbitrary: s)
  case Nil
  then show ?case by (simp add: run_def)
next
  case (Cons c cs)
  have ne: "c \<noteq> Tick" and rest: "Tick \<notin> set cs"
    using Cons.prems by auto
  have "run files s (c # cs) = run files (do_call files s c) cs"
    by (simp add: run_def)
  then show ?case
    using Cons.IH [OF rest, of "do_call files s c"] by (simp add: do_call_shown [OF ne])
qed

text \<open>
  C6, as the code has it. \<open>toggle_crosshair\<close> writes the flag and nothing else: the
  window stays shown or hidden as it was and \<open>update()\<close> is not called. After any
  sequence of \<open>toggle_crosshair\<close> calls the tick shows or hides the window by the last
  value written, so true then false gives hidden. The constructor shows the window
  once; after it, of the calls on the overlay and of the events of the panel, only the
  tick shows or hides the window, so that the window stays shown until the first tick.
\<close>

theorem toggle_last_write_wins:
  "toggle_crosshair s b = s\<lparr>crosshair_visible := b\<rparr> \<and>
   shown (toggle_crosshair s b) = shown s \<and>
   update_calls (toggle_crosshair s b) = update_calls s \<and>
   shown (update_overlay (foldl toggle_crosshair s (bs @ [b]))) = b \<and>
   shown (update_overlay (toggle_crosshair (toggle_crosshair s True) False)) = False \<and>
   (c \<noteq> Tick \<longrightarrow> shown (do_call files s c) = shown s) \<and>
   (e \<noteq> TimerTick \<longrightarrow>
      shown (crosshair_overlay (handle files ui e)) = shown (crosshair_overlay ui)) \<and>
   shown (init_widget dw dh) \<and>
   (Tick \<notin> set cs \<longrightarrow> shown (run files (init_widget dw dh) cs))"
proof -
  have "shown (update_overlay t) = crosshair_visible t" for t
    by (simp add: update_overlay_def show_widget_def hide_widget_def)
  then have "shown (update_overlay (foldl toggle_crosshair s (bs @ [b]))) = b"
    by (simp only: toggles_last)
  moreover have "shown (update_overlay (toggle_crosshair (toggle_crosshair s True) False)) = False"
    by (simp add: update_overlay_def toggle_crosshair_def hide_widget_def)
  moreover have "toggle_crosshair s b = s\<lparr>crosshair_visible := b\<rparr>"
    by (simp add: toggle_crosshair_def)
  moreover have i: "shown (init_widget dw dh)"
    by (simp add: init_widget_def overlay_defs)
  moreover have "shown (run files (init_widget dw dh) cs)" if "Tick \<notin> set cs"
    using that i by (simp add: run_shown_without_tick)
  ultimately show ?thesis
    by (simp add: do_call_shown handle_shown)
qed

theorem toggle_last_write_wins_witness:
  "Toggle True \<noteq> Tick \<and> EnableClicked \<noteq> TimerTick \<and>
   Tick \<notin> set [Toggle True, SetSize 40] \<and>
   shown (do_call example_files example_overlay (Toggle True)) = shown example_overlay \<and>
   shown (crosshair_overlay (handle example_files (init_ui example_overlay) EnableClicked)) =
     shown example_overlay \<and>
   shown (update_overlay (foldl toggle_crosshair example_overlay ([True, False, True] @ [False]))) = False \<and>
   shown (run example_files (init_widget 1920 1080) [Toggle True, SetSize 40])"
proof -
  have a: "Toggle True \<noteq> Tick" by simp
  have b: "EnableClicked \<noteq> TimerTick" by simp
  have t: "Tick \<notin> set [Toggle True, SetSize 40]" by simp
  have o: "crosshair_overlay (init_ui example_overlay) = example_overlay"
    by (simp add: init_ui_def)
  from toggle_last_write_wins [of example_overlay False "[True, False, True]" "Toggle True" example_files
              EnableClicked "init_ui example_overlay" 1920 1080 "[Toggle True, SetSize 40]"] a b t o
  show ?thesis by simp
qed

text \<open>
  C6, as the claim states it, fails: the tick is not the only thing that shows the
  window. After construction and calls that are not ticks, the flag is off and the
  window is shown, by the constructor's \<open>show()\<close>.
\<close>

theorem toggle_last_write_wins_counterexample:
  "Tick \<notin> set [Toggle False, SetSize 40] \<and>
   \<not> crosshair_visible (run example_files (init_widget 1920 1080) [Toggle False, SetSize 40]) \<and>
   shown (run example_files (init_widget 1920 1080) [Toggle False, SetSize 40])"
  by (simp add: run_def init_widget_def overlay_defs)

section \<open>Painting\<close>

lemmas painter_defs =
  QPainter_def setPen_color_def setPen_def setWidth_def drawPixmap_def drawLine_def

lemma paintEvent_hidden: "\<not> crosshair_visible s \<Longrightarrow> paintEvent s = Returned []"
  by (simp add: paintEvent_def)

lemma paintEvent_image:
  "crosshair_visible s \<Longrightarrow> crosshair_image s = Some img \<Longrightarrow>
   paintEvent s =
     Returned [DrawPixmap (moveCenter (pixmap_rect img) (center (widget_rect s))) img]"
  by (simp add: paintEvent_def painter_defs Let_def)

lemma setWidth_overflow:
  "\<not> c_int w \<Longrightarrow> setWidth pn w = Inl OverflowError"
  by (simp add: setWidth_def)

lemma setWidth_stroke_pen:
  "c_int (thickness s) \<Longrightarrow>
   setWidth \<lparr>pen_color = (if isValid (color s) then color s else QColor 0 0 0 255),
             pen_width = 1\<rparr> (thickness s) = Inr (stroke_pen s)"
  by (auto simp add: setWidth_def stroke_pen_def)

lemma drawLine_fits:
  "c_int x1 \<Longrightarrow> c_int y1 \<Longrightarrow> c_int x2 \<Longrightarrow> c_int y2 \<Longrightarrow>
   drawLine p x1 y1 x2 y2 = Inr (p\<lparr>calls := calls p @ [DrawLine (pen p) x1 y1 x2 y2]\<rparr>)"
  by (simp add: drawLine_def)

lemma drawLine_overflow:
  "\<not> (c_int x1 \<and> c_int y1 \<and> c_int x2 \<and> c_int y2) \<Longrightarrow>
   drawLine p x1 y1 x2 y2 = Inl OverflowError"
  by (simp add: drawLine_def)

lemma paintEvent_line_branch:
  assumes "crosshair_visible s" and "crosshair_image s = None" and "c_int (thickness s)"
  shows "paintEvent s =
     (case drawLine \<lparr>pen = stroke_pen s, calls = []\<rparr>
             (geo_width s div 2 - size_val s) (geo_height s div 2)
             (geo_width s div 2 + size_val s) (geo_height s div 2) of
        Inl e \<Rightarrow> Raised e []
      | Inr painter \<Rightarrow>
          (case drawLine painter (geo_width s div 2) (geo_height s div 2 - size_val s)
                  (geo_width s div 2) (geo_height s div 2 + size_val s) of
             Inl e \<Rightarrow> Raised e (calls painter)
           | Inr painter \<Rightarrow> Returned (calls painter)))"
proof -
  have p: "pen (setPen_color QPainter (color s)) =
           \<lparr>pen_color = (if isValid (color s) then color s else QColor 0 0 0 255), pen_width = 1\<rparr>"
    by (simp add: setPen_color_def QPainter_def)
  have q: "setPen (setPen_color QPainter (color s)) (stroke_pen s) =
           \<lparr>pen = stroke_pen s, calls = []\<rparr>"
    by (simp add: setPen_def setPen_color_def QPainter_def)
  have w: "setWidth (pen (setPen_color QPainter (color s))) (thickness s) = Inr (stroke_pen s)"
    unfolding p using assms(3) by (rule setWidth_stroke_pen)
  show ?thesis
    using assms(1,2) by (simp add: paintEvent_def Let_def w q split: sum.splits)
qed

lemma paintEvent_lines:
  assumes "crosshair_visible s" and "crosshair_image s = None"
    and "c_int (thickness s)" and "horizontal_fits s" and "vertical_fits s"
  shows "paintEvent s =
     Returned
       [DrawLine (stroke_pen s)
          (geo_width s div 2 - size_val s) (geo_height s div 2)
          (geo_width s div 2 + size_val s) (geo_height s div 2),
        DrawLine (stroke_pen s)
          (geo_width s div 2) (geo_height s div 2 - size_val s)
          (geo_width s div 2) (geo_height s div 2 + size_val s)]"
  using assms(4,5)
  by (simp add: paintEvent_line_branch [OF assms(1-3)] drawLine_fits
        horizontal_fits_def vertical_fits_def)

lemma paintEvent_thickness_overflow:
  assumes "crosshair_visible s" and "crosshair_image s = None" and "\<not> c_int (thickness s)"
  shows "paintEvent s = Raised OverflowError []"
  using assms
  by (simp add: paintEvent_def Let_def setWidth_overflow setPen_color_def QPainter_def)

lemma paintEvent_horizontal_overflow:
  assumes "crosshair_visible s" and "crosshair_image s = None"
    and "c_int (thickness s)" and "\<not> horizontal_fits s"
  shows "paintEvent s = Raised OverflowError []"
proof -
  have "\<not> (c_int (geo_width s div 2 - size_val s) \<and> c_int (geo_height s div 2) \<and>
            c_int (geo_width s div 2 + size_val s) \<and> c_int (geo_height s div 2))"
    using assms(4) by (auto simp add: horizontal_fits_def)
  then have "drawLine p (geo_width s div 2 - size_val s) (geo_height s div 2)
               (geo_width s div 2 + size_val s) (geo_height s div 2) = Inl OverflowError" for p
    by (rule drawLine_overflow)
  then show ?thesis
    by (simp add: paintEvent_line_branch [OF assms(1-3)])
qed

lemma paintEvent_vertical_overflow:
  assumes "crosshair_visible s" and "crosshair_image s = None"
    and "c_int (thickness s)" and "horizontal_fits s" and "\<not> vertical_fits s"
  shows "paintEvent s =
     Raised OverflowError
       [DrawLine (stroke_pen s)
          (geo_width s div 2 - size_val s) (geo_height s div 2)
          (geo_width s div 2 + size_val s) (geo_height s div 2)]"
proof -
  have h: "drawLine p (geo_width s div 2 - size_val s) (geo_height s div 2)
               (geo_width s div 2 + size_val s) (geo_height s div 2) =
           Inr (p\<lparr>calls := calls p @
                  [DrawLine (pen p) (geo_width s div 2 - size_val s) (geo_height s div 2)
                     (geo_width s div 2 + size_val s) (geo_height s div 2)]\<rparr>)" for p
    using assms(4) by (simp add: horizontal_fits_def drawLine_fits)
  have "\<not> (c_int (geo_width s div 2) \<and> c_int (geo_height s div 2 - size_val s) \<and>
            c_int (geo_width s div 2) \<and> c_int (geo_height s div 2 + size_val s))"
    using assms(5) by (auto simp add: vertical_fits_def)
  then have v: "drawLine p (geo_width s div 2) (geo_height s div 2 - size_val s)
               (geo_width s div 2) (geo_height s div 2 + size_val s) = Inl OverflowError" for p
    by (rule drawLine_overflow)
  show ?thesis
    by (simp add: paintEvent_line_branch [OF assms(1-3)] h v)
qed

lemma stroke_pen_in_range:
  "0 \<le> thickness s \<Longrightarrow> thickness s < 32768 \<Longrightarrow> isValid (color s) \<Longrightarrow>
   stroke_pen s = \<lparr>pen_color = color s, pen_width = thickness s\<rparr>"
  by (simp add: stroke_pen_def)

lemma cdiv2_nonneg: "0 \<le> a \<Longrightarrow> cdiv2 a = a div 2"
  by (simp add: cdiv2_def)

lemma moveCenter_size:
  "rect_width (moveCenter r p) = rect_width r \<and> rect_height (moveCenter r p) = rect_height r"
  by (simp add: moveCenter_def rect_width_def rect_height_def Let_def)

lemma pixmap_rect_size:
  "rect_width (pixmap_rect pm) = pm_width pm \<and> rect_height (pixmap_rect pm) = pm_height pm"
  by (simp add: pixmap_rect_def QRect_def rect_width_def rect_height_def)

lemma recenter_axis:
  assumes "1 \<le> w" and "0 \<le> c"
  shows "cdiv2 (2 * c + (w - 1 - 2 * cdiv2 (w - 1))) = c"
proof -
  have h: "cdiv2 (w - 1) = (w - 1) div 2" using assms by (simp add: cdiv2_nonneg)
  have "0 \<le> 2 * c + (w - 1 - 2 * ((w - 1) div 2))" using assms by arith
  then have "cdiv2 (2 * c + (w - 1 - 2 * ((w - 1) div 2))) =
             (2 * c + (w - 1 - 2 * ((w - 1) div 2))) div 2"
    by (rule cdiv2_nonneg)
  also have "\<dots> = c" by arith
  finally show ?thesis by (simp only: h)
qed

lemma center_moveCenter:
  assumes "1 \<le> pm_width img" "1 \<le> pm_height img" "0 \<le> fst p" "0 \<le> snd p"
  shows "center (moveCenter (pixmap_rect img) p) = p"
proof -
  have "fst (center (moveCenter (pixmap_rect img) p)) =
        cdiv2 (2 * fst p + (pm_width img - 1 - 2 * cdiv2 (pm_width img - 1)))"
    by (simp add: center_def moveCenter_def pixmap_rect_def QRect_def Let_def)
  then have x: "fst (center (moveCenter (pixmap_rect img) p)) = fst p"
    using assms by (simp only: recenter_axis)
  have "snd (center (moveCenter (pixmap_rect img) p)) =
        cdiv2 (2 * snd p + (pm_height img - 1 - 2 * cdiv2 (pm_height img - 1)))"
    by (simp add: center_def moveCenter_def pixmap_rect_def QRect_def Let_def)
  then have y: "snd (center (moveCenter (pixmap_rect img) p)) = snd p"
    using assms by (simp only: recenter_axis)
  from x y show ?thesis by (simp add: prod_eq_iff)
qed

lemma cdiv2_pred_nonneg: "0 \<le> w \<Longrightarrow> 0 \<le> cdiv2 (w - 1)"
  by (cases "w = 0") (simp_all add: cdiv2_def)

lemma image_centered:
  assumes "\<not> isNull img" "0 \<le> geo_width s" "0 \<le> geo_height s"
  shows "center (moveCenter (pixmap_rect img) (center (widget_rect s))) = center (widget_rect s)"
proof -
  have cx: "0 \<le> fst (center (widget_rect s))" and cy: "0 \<le> snd (center (widget_rect s))"
    using assms(2,3) by (simp_all add: center_def widget_rect_def QRect_def cdiv2_pred_nonneg)
  have wx: "1 \<le> pm_width img" and wy: "1 \<le> pm_height img"
    using assms(1) by (simp_all add: isNull_def)
  from wx wy cx cy show ?thesis by (rule center_moveCenter)
qed

lemmas run_simps = run_def example_overlay_def init_widget_def overlay_defs

text \<open>
  C1, as the code has it. \<open>paintEvent\<close> makes no drawing call when the flag is off. With
  the flag on and an image present, null or not, its one call is \<open>drawPixmap\<close> with the
  image and a rectangle of the image's size moved to the centre of the widget's
  rectangle, and it draws no line; a null image puts nothing on the surface, and for an
  image that is not null, on a widget of width and height not below 0, the rectangle's
  centre is the widget's. With the flag on and no image: when the thickness is from 0
  to 32767, the colour is valid and all arguments fit a C \<open>int\<close>, its calls are two lines
  through the midpoint \<open>(width div 2, height div 2)\<close>, one horizontal from \<open>mid_x - size\<close>
  to \<open>mid_x + size\<close>, one vertical from \<open>mid_y - size\<close> to \<open>mid_y + size\<close>, both with a
  pen of the overlay's colour and thickness. Otherwise the pen is \<open>stroke_pen\<close>: width 1
  for a thickness below 0 or from 32768 up, black for a colour that is not valid; and a
  thickness or a line argument outside the range of a C \<open>int\<close> raises \<open>OverflowError\<close>,
  before any line for the thickness and the horizontal line, after the horizontal line
  for the vertical one.
\<close>

theorem paintEvent_cases:
  "(\<not> crosshair_visible s \<longrightarrow> paintEvent s = Returned []) \<and>
   (crosshair_visible s \<longrightarrow> crosshair_image s = Some img \<longrightarrow>
      paintEvent s =
        Returned [DrawPixmap (moveCenter (pixmap_rect img) (center (widget_rect s))) img] \<and>
      filter is_line (drawn (paintEvent s)) = [] \<and>
      rect_width (moveCenter (pixmap_rect img) (center (widget_rect s))) = pm_width img \<and>
      rect_height (moveCenter (pixmap_rect img) (center (widget_rect s))) = pm_height img \<and>
      (isNull img \<longrightarrow> filter draws (drawn (paintEvent s)) = []) \<and>
      (\<not> isNull img \<longrightarrow> 0 \<le> geo_width s \<longrightarrow> 0 \<le> geo_height s \<longrightarrow>
         filter draws (drawn (paintEvent s)) = drawn (paintEvent s) \<and>
         center (moveCenter (pixmap_rect img) (center (widget_rect s))) =
           center (widget_rect s))) \<and>
   (crosshair_visible s \<longrightarrow> crosshair_image s = None \<longrightarrow>
      (0 \<le> thickness s \<longrightarrow> thickness s < 32768 \<longrightarrow> isValid (color s) \<longrightarrow>
       horizontal_fits s \<longrightarrow> vertical_fits s \<longrightarrow>
         paintEvent s =
           Returned
             [DrawLine \<lparr>pen_color = color s, pen_width = thickness s\<rparr>
                (geo_width s div 2 - size_val s) (geo_height s div 2)
                (geo_width s div 2 + size_val s) (geo_height s div 2),
              DrawLine \<lparr>pen_color = color s, pen_width = thickness s\<rparr>
                (geo_width s div 2) (geo_height s div 2 - size_val s)
                (geo_width s div 2) (geo_height s div 2 + size_val s)]) \<and>
      (c_int (thickness s) \<longrightarrow> horizontal_fits s \<longrightarrow> vertical_fits s \<longrightarrow>
         paintEvent s =
           Returned
             [DrawLine (stroke_pen s)
                (geo_width s div 2 - size_val s) (geo_height s div 2)
                (geo_width s div 2 + size_val s) (geo_height s div 2),
              DrawLine (stroke_pen s)
                (geo_width s div 2) (geo_height s div 2 - size_val s)
                (geo_width s div 2) (geo_height s div 2 + size_val s)]) \<and>
      (thickness s < 0 \<or> 32768 \<le> thickness s \<longrightarrow> pen_width (stroke_pen s) = 1) \<and>
      (\<not> isValid (color s) \<longrightarrow> pen_color (stroke_pen s) = QColor 0 0 0 255) \<and>
      (\<not> c_int (thickness s) \<longrightarrow> paintEvent s = Raised OverflowError []) \<and>
      (c_int (thickness s) \<longrightarrow> \<not> horizontal_fits s \<longrightarrow>
         paintEvent s = Raised OverflowError []) \<and>
      (c_int (thickness s) \<longrightarrow> horizontal_fits s \<longrightarrow> \<not> vertical_fits s \<longrightarrow>
         paintEvent s =
           Raised OverflowError
             [DrawLine (stroke_pen s)
                (geo_width s div 2 - size_val s) (geo_height s div 2)
                (geo_width s div 2 + size_val s) (geo_height s div 2)]))"
proof (intro conjI impI)
  show "paintEvent s = Returned []" if "\<not> crosshair_visible s"
    using that by (rule paintEvent_hidden)
next
  assume v: "crosshair_visible s" and i: "crosshair_image s = Some img"
  show p: "paintEvent s =
        Returned [DrawPixmap (moveCenter (pixmap_rect img) (center (widget_rect s))) img]"
    using v i by (rule paintEvent_image)
  show "filter is_line (drawn (paintEvent s)) = []"
    by (simp add: p)
  show "rect_width (moveCenter (pixmap_rect img) (center (widget_rect s))) = pm_width img"
    by (simp add: moveCenter_size pixmap_rect_size)
  show "rect_height (moveCenter (pixmap_rect img) (center (widget_rect s))) = pm_height img"
    by (simp add: moveCenter_size pixmap_rect_size)
  show "filter draws (drawn (paintEvent s)) = []" if "isNull img"
    using that by (simp add: p)
  show "filter draws (drawn (paintEvent s)) = drawn (paintEvent s)" if "\<not> isNull img"
    using that by (simp add: p)
  show "center (moveCenter (pixmap_rect img) (center (widget_rect s))) = center (widget_rect s)"
    if "\<not> isNull img" "0 \<le> geo_width s" "0 \<le> geo_height s"
    using that by (rule image_centered)
next
  assume v: "crosshair_visible s" and i: "crosshair_image s = None"
  show "paintEvent s =
           Returned
             [DrawLine \<lparr>pen_color = color s, pen_width = thickness s\<rparr>
                (geo_width s div 2 - size_val s) (geo_height s div 2)
                (geo_width s div 2 + size_val s) (geo_height s div 2),
              DrawLine \<lparr>pen_color = color s, pen_width = thickness s\<rparr>
                (geo_width s div 2) (geo_height s div 2 - size_val s)
                (geo_width s div 2) (geo_height s div 2 + size_val s)]"
    if t: "0 \<le> thickness s" "thickness s < 32768" and c: "isValid (color s)"
      and h: "horizontal_fits s" "vertical_fits s"
  proof -
    have "c_int (thickness s)" using t by (simp add: c_int_def)
    then show ?thesis
      using paintEvent_lines [OF v i _ h] stroke_pen_in_range [OF t c] by simp
  qed
  show "paintEvent s =
           Returned
             [DrawLine (stroke_pen s)
                (geo_width s div 2 - size_val s) (geo_height s div 2)
                (geo_width s div 2 + size_val s) (geo_height s div 2),
              DrawLine (stroke_pen s)
                (geo_width s div 2) (geo_height s div 2 - size_val s)
                (geo_width s div 2) (geo_height s div 2 + size_val s)]"
    if "c_int (thickness s)" "horizontal_fits s" "vertical_fits s"
    using v i that by (rule paintEvent_lines)
  show "pen_width (stroke_pen s) = 1" if "thickness s < 0 \<or> 32768 \<le> thickness s"
    using that by (auto simp add: stroke_pen_def)
  show "pen_color (stroke_pen s) = QColor 0 0 0 255" if "\<not> isValid (color s)"
    using that by (simp add: stroke_pen_def)
  show "paintEvent s = Raised OverflowError []" if "\<not> c_int (thickness s)"
    using v i that by (rule paintEvent_thickness_overflow)
  show "paintEvent s = Raised OverflowError []"
    if "c_int (thickness s)" "\<not> horizontal_fits s"
    using v i that by (rule paintEvent_horizontal_overflow)
  show "paintEvent s =
           Raised OverflowError
             [DrawLine (stroke_pen s)
                (geo_width s div 2 - size_val s) (geo_height s div 2)
                (geo_width s div 2 + size_val s) (geo_height s div 2)]"
    if "c_int (thickness s)" "horizontal_fits s" "\<not> vertical_fits s"
    using v i that by (rule paintEvent_vertical_overflow)
qed

theorem paintEvent_cases_witness:
  "paintEvent example_overlay = Returned [] \<and>
   paintEvent
     (run example_files example_overlay [SetSize 40, SetThickness 5, SetColor blue_color, Toggle True]) =
     Returned
       [DrawLine \<lparr>pen_color = blue_color, pen_width = 5\<rparr> 920 540 1000 540,
        DrawLine \<lparr>pen_color = blue_color, pen_width = 5\<rparr> 960 500 960 580] \<and>
   paintEvent (run example_files example_overlay [Load ''good.png'', SetSize 40, Toggle True]) =
     Returned
       [DrawPixmap \<lparr>r_left = 944, r_top = 524, r_right = 975, r_bottom = 555\<rparr>
          \<lparr>pm_width = 32, pm_height = 32, pm_data = 1\<rparr>] \<and>
   center \<lparr>r_left = 944, r_top = 524, r_right = 975, r_bottom = 555\<rparr> =
     center (QRect 0 0 1920 1080) \<and>
   filter draws
     (drawn (paintEvent (run example_files example_overlay [Load ''bad.png'', Toggle True]))) = [] \<and>
   paintEvent (run example_files example_overlay [SetThickness 40000, Toggle True]) =
     Returned
       [DrawLine \<lparr>pen_color = QColor 255 0 0 255, pen_width = 1\<rparr> 945 540 975 540,
        DrawLine \<lparr>pen_color = QColor 255 0 0 255, pen_width = 1\<rparr> 960 525 960 555] \<and>
   paintEvent (run example_files example_overlay [SetColor cancelled_color, Toggle True]) =
     Returned
       [DrawLine \<lparr>pen_color = QColor 0 0 0 255, pen_width = 2\<rparr> 945 540 975 540,
        DrawLine \<lparr>pen_color = QColor 0 0 0 255, pen_width = 2\<rparr> 960 525 960 555] \<and>
   paintEvent (run example_files example_overlay [SetThickness 2147483648, Toggle True]) =
     Raised OverflowError [] \<and>
   paintEvent (run example_files example_overlay [SetSize (- 2147483648), Toggle True]) =
     Raised OverflowError [] \<and>
   paintEvent (run example_files (init_widget 1080 1920) [SetSize 2147483107, Toggle True]) =
     Raised OverflowError
       [DrawLine \<lparr>pen_color = QColor 255 0 0 255, pen_width = 2\<rparr>
          (- 2147482567) 960 2147483647 960]"
proof -
  define s1 where
    "s1 = run example_files example_overlay [SetSize 40, SetThickness 5, SetColor blue_color, Toggle True]"
  define s2 where
    "s2 = run example_files example_overlay [Load ''good.png'', SetSize 40, Toggle True]"
  define s3 where "s3 = run example_files example_overlay [Load ''bad.png'', Toggle True]"
  define s4 where "s4 = run example_files example_overlay [SetThickness 40000, Toggle True]"
  define s5 where "s5 = run example_files example_overlay [SetColor cancelled_color, Toggle True]"
  define s6 where "s6 = run example_files example_overlay [SetThickness 2147483648, Toggle True]"
  define s7 where "s7 = run example_files example_overlay [SetSize (- 2147483648), Toggle True]"
  define s8 where "s8 = run example_files (init_widget 1080 1920) [SetSize 2147483107, Toggle True]"
  define img where "img = \<lparr>pm_width = 32, pm_height = 32, pm_data = 1\<rparr>"
  have red: "isValid (QColor 255 0 0 255)" and blue: "isValid blue_color"
    and grey: "\<not> isValid cancelled_color"
    by (simp_all add: QColor_def blue_color_def cancelled_color_def)

  have h0: "\<not> crosshair_visible example_overlay"
    by (simp add: run_simps)
  have p0: "paintEvent example_overlay = Returned []"
    using paintEvent_cases [of example_overlay] h0 by simp

  have v1: "crosshair_visible s1" and i1: "crosshair_image s1 = None"
    and f1: "color s1 = blue_color" "thickness s1 = 5" "size_val s1 = 40"
            "geo_width s1 = 1920" "geo_height s1 = 1080"
    by (simp_all add: s1_def run_simps)
  have r1: "0 \<le> thickness s1" "thickness s1 < 32768" "isValid (color s1)"
    "horizontal_fits s1" "vertical_fits s1"
    by (simp_all add: f1 blue horizontal_fits_def vertical_fits_def c_int_def)
  have p1: "paintEvent s1 =
     Returned
       [DrawLine \<lparr>pen_color = blue_color, pen_width = 5\<rparr> 920 540 1000 540,
        DrawLine \<lparr>pen_color = blue_color, pen_width = 5\<rparr> 960 500 960 580]"
    using paintEvent_cases [of s1, THEN conjunct2, THEN conjunct2, rule_format, OF v1 i1,
             THEN conjunct1, rule_format, OF r1]
    by (simp add: f1)

  have v2: "crosshair_visible s2" and i2: "crosshair_image s2 = Some img"
    and f2: "geo_width s2 = 1920" "geo_height s2 = 1080"
    by (simp_all add: s2_def img_def run_simps QPixmap_def example_files_def)
  have d2: "\<not> isNull img" "0 \<le> geo_width s2" "0 \<le> geo_height s2"
    by (simp_all add: img_def isNull_def f2)
  have r2: "moveCenter (pixmap_rect img) (center (widget_rect s2)) =
           \<lparr>r_left = 944, r_top = 524, r_right = 975, r_bottom = 555\<rparr>"
    by (simp add: moveCenter_def pixmap_rect_def center_def widget_rect_def QRect_def
          cdiv2_def img_def f2 Let_def)
  have w2: "widget_rect s2 = QRect 0 0 1920 1080"
    by (simp add: widget_rect_def f2)
  note im = paintEvent_cases [of s2 img, THEN conjunct2, THEN conjunct1, rule_format, OF v2 i2]
  have p2: "paintEvent s2 =
     Returned [DrawPixmap \<lparr>r_left = 944, r_top = 524, r_right = 975, r_bottom = 555\<rparr> img]"
    using im [THEN conjunct1] by (simp only: r2)
  have "center (moveCenter (pixmap_rect img) (center (widget_rect s2))) = center (widget_rect s2)"
    using im [THEN conjunct2, THEN conjunct2, THEN conjunct2, THEN conjunct2, THEN conjunct2,
             rule_format, OF d2]
    by (rule conjunct2)
  then have "center \<lparr>r_left = 944, r_top = 524, r_right = 975, r_bottom = 555\<rparr> =
             center (widget_rect s2)"
    by (simp only: r2)
  then have c2: "center \<lparr>r_left = 944, r_top = 524, r_right = 975, r_bottom = 555\<rparr> =
             center (QRect 0 0 1920 1080)"
    by (simp only: w2)

  have v3: "crosshair_visible s3" and i3: "crosshair_image s3 = Some null_pixmap"
    by (simp_all add: s3_def run_simps QPixmap_def example_files_def)
  have n3: "isNull null_pixmap"
    by (simp add: isNull_def null_pixmap_def)
  have p3: "filter draws (drawn (paintEvent s3)) = []"
    using paintEvent_cases [of s3 null_pixmap, THEN conjunct2, THEN conjunct1, rule_format,
             OF v3 i3, THEN conjunct2, THEN conjunct2, THEN conjunct2, THEN conjunct2, THEN conjunct1, rule_format, OF n3] .

  have v4: "crosshair_visible s4" and i4: "crosshair_image s4 = None"
    and f4: "color s4 = QColor 255 0 0 255" "thickness s4 = 40000" "size_val s4 = 15"
            "geo_width s4 = 1920" "geo_height s4 = 1080"
    by (simp_all add: s4_def run_simps)
  have r4: "c_int (thickness s4)" "horizontal_fits s4" "vertical_fits s4"
    by (simp_all add: f4 horizontal_fits_def vertical_fits_def c_int_def)
  note l4 = paintEvent_cases [of s4, THEN conjunct2, THEN conjunct2, rule_format, OF v4 i4]
  have w4: "pen_width (stroke_pen s4) = 1"
    using l4 by (simp add: f4)
  have "pen_color (stroke_pen s4) = QColor 255 0 0 255"
    by (simp add: stroke_pen_def f4 red)
  with w4 have k4: "stroke_pen s4 = \<lparr>pen_color = QColor 255 0 0 255, pen_width = 1\<rparr>"
    by (cases "stroke_pen s4") simp
  have p4: "paintEvent s4 =
     Returned
       [DrawLine \<lparr>pen_color = QColor 255 0 0 255, pen_width = 1\<rparr> 945 540 975 540,
        DrawLine \<lparr>pen_color = QColor 255 0 0 255, pen_width = 1\<rparr> 960 525 960 555]"
    using l4 [THEN conjunct2, THEN conjunct1, rule_format, OF r4]
    by (simp add: f4 k4)

  have v5: "crosshair_visible s5" and i5: "crosshair_image s5 = None"
    and f5: "color s5 = cancelled_color" "thickness s5 = 2" "size_val s5 = 15"
            "geo_width s5 = 1920" "geo_height s5 = 1080"
    by (simp_all add: s5_def run_simps)
  have r5: "c_int (thickness s5)" "horizontal_fits s5" "vertical_fits s5"
    by (simp_all add: f5 horizontal_fits_def vertical_fits_def c_int_def)
  note l5 = paintEvent_cases [of s5, THEN conjunct2, THEN conjunct2, rule_format, OF v5 i5]
  have b5: "pen_color (stroke_pen s5) = QColor 0 0 0 255"
    using l5 grey by (simp add: f5)
  have "pen_width (stroke_pen s5) = 2"
    by (simp add: stroke_pen_def f5)
  with b5 have k5: "stroke_pen s5 = \<lparr>pen_color = QColor 0 0 0 255, pen_width = 2\<rparr>"
    by (cases "stroke_pen s5") simp
  have p5: "paintEvent s5 =
     Returned
       [DrawLine \<lparr>pen_color = QColor 0 0 0 255, pen_width = 2\<rparr> 945 540 975 540,
        DrawLine \<lparr>pen_color = QColor 0 0 0 255, pen_width = 2\<rparr> 960 525 960 555]"
    using l5 [THEN conjunct2, THEN conjunct1, rule_format, OF r5]
    by (simp add: f5 k5)

  have v6: "crosshair_visible s6" and i6: "crosshair_image s6 = None"
    and f6: "thickness s6 = 2147483648"
    by (simp_all add: s6_def run_simps)
  have r6: "\<not> c_int (thickness s6)"
    by (simp add: f6 c_int_def)
  have p6: "paintEvent s6 = Raised OverflowError []"
    using paintEvent_cases [of s6, THEN conjunct2, THEN conjunct2, rule_format, OF v6 i6,
             THEN conjunct2, THEN conjunct2, THEN conjunct2, THEN conjunct2, THEN conjunct1, rule_format, OF r6] .

  have v7: "crosshair_visible s7" and i7: "crosshair_image s7 = None"
    and f7: "thickness s7 = 2" "size_val s7 = - 2147483648"
            "geo_width s7 = 1920" "geo_height s7 = 1080"
    by (simp_all add: s7_def run_simps)
  have r7: "c_int (thickness s7)" "\<not> horizontal_fits s7"
    by (simp_all add: f7 horizontal_fits_def c_int_def)
  have p7: "paintEvent s7 = Raised OverflowError []"
    using paintEvent_cases [of s7, THEN conjunct2, THEN conjunct2, rule_format, OF v7 i7,
             THEN conjunct2, THEN conjunct2, THEN conjunct2, THEN conjunct2, THEN conjunct2, THEN conjunct1, rule_format, OF r7] .

  have v8: "crosshair_visible s8" and i8: "crosshair_image s8 = None"
    and f8: "color s8 = QColor 255 0 0 255" "thickness s8 = 2" "size_val s8 = 2147483107"
            "geo_width s8 = 1080" "geo_height s8 = 1920"
    by (simp_all add: s8_def run_def init_widget_def overlay_defs)
  have r8: "c_int (thickness s8)" "horizontal_fits s8" "\<not> vertical_fits s8"
    by (simp_all add: f8 horizontal_fits_def vertical_fits_def c_int_def)
  have k8: "stroke_pen s8 = \<lparr>pen_color = QColor 255 0 0 255, pen_width = 2\<rparr>"
    by (simp add: stroke_pen_def f8 red)
  note l8 = paintEvent_cases [of s8, THEN conjunct2, THEN conjunct2, rule_format, OF v8 i8]
  have "paintEvent s8 =
     Raised OverflowError
       [DrawLine (stroke_pen s8)
          (geo_width s8 div 2 - size_val s8) (geo_height s8 div 2)
          (geo_width s8 div 2 + size_val s8) (geo_height s8 div 2)]"
    using l8 [THEN conjunct2, THEN conjunct2, THEN conjunct2, THEN conjunct2, THEN conjunct2, THEN conjunct2, rule_format, OF r8] .
  then have p8: "paintEvent s8 =
     Raised OverflowError
       [DrawLine \<lparr>pen_color = QColor 255 0 0 255, pen_width = 2\<rparr>
          (- 2147482567) 960 2147483647 960]"
    by (simp add: f8 k8)

  from p0 p1 p2 c2 p3 p4 p5 p6 p7 p8 show ?thesis
    unfolding s1_def s2_def s3_def s4_def s5_def s6_def s7_def s8_def img_def
    by (intro conjI)
qed

text \<open>
  C1, as the claim states it, fails: with thickness -3 the two lines are stroked with
  width 1, and with size 2147483648 \<open>paintEvent\<close> raises and draws no line.
\<close>

theorem paintEvent_cases_counterexample:
  "crosshair_visible (run example_files example_overlay [SetThickness (- 3), Toggle True]) \<and>
   crosshair_image (run example_files example_overlay [SetThickness (- 3), Toggle True]) = None \<and>
   thickness (run example_files example_overlay [SetThickness (- 3), Toggle True]) = - 3 \<and>
   paintEvent (run example_files example_overlay [SetThickness (- 3), Toggle True]) =
     Returned
       [DrawLine \<lparr>pen_color = QColor 255 0 0 255, pen_width = 1\<rparr> 945 540 975 540,
        DrawLine \<lparr>pen_color = QColor 255 0 0 255, pen_width = 1\<rparr> 960 525 960 555] \<and>
   crosshair_visible (run example_files example_overlay [SetSize 2147483648, Toggle True]) \<and>
   crosshair_image (run example_files example_overlay [SetSize 2147483648, Toggle True]) = None \<and>
   paintEvent (run example_files example_overlay [SetSize 2147483648, Toggle True]) =
     Raised OverflowError []"
proof -
  define s where "s = run example_files example_overlay [SetThickness (- 3), Toggle True]"
  define t where "t = run example_files example_overlay [SetSize 2147483648, Toggle True]"
  have v: "crosshair_visible s" and i: "crosshair_image s = None"
    and f: "color s = QColor 255 0 0 255" "thickness s = - 3" "size_val s = 15"
           "geo_width s = 1920" "geo_height s = 1080"
    by (simp_all add: s_def run_simps)
  have r: "c_int (thickness s)" "horizontal_fits s" "vertical_fits s"
    by (simp_all add: f horizontal_fits_def vertical_fits_def c_int_def)
  have k: "stroke_pen s = \<lparr>pen_color = QColor 255 0 0 255, pen_width = 1\<rparr>"
    by (simp add: stroke_pen_def f QColor_def)
  have p: "paintEvent s =
     Returned
       [DrawLine \<lparr>pen_color = QColor 255 0 0 255, pen_width = 1\<rparr> 945 540 975 540,
        DrawLine \<lparr>pen_color = QColor 255 0 0 255, pen_width = 1\<rparr> 960 525 960 555]"
    using paintEvent_lines [OF v i r] by (simp add: f k)
  have v': "crosshair_visible t" and i': "crosshair_image t = None"
    and f': "thickness t = 2" "size_val t = 2147483648" "geo_width t = 1920" "geo_height t = 1080"
    by (simp_all add: t_def run_simps)
  have r': "c_int (thickness t)" "\<not> horizontal_fits t"
    by (simp_all add: f' horizontal_fits_def c_int_def)
  have p': "paintEvent t = Raised OverflowError []"
    using v' i' r' by (rule paintEvent_horizontal_overflow)
  from v i f(2) p v' i' p' show ?thesis
    unfolding s_def t_def by (intro conjI)
qed

section \<open>Loading an image that does not decode\<close>

lemma null_pixmap_isNull: "isNull null_pixmap"
  by (simp add: isNull_def null_pixmap_def)

lemma QPixmap_failed: "files image_path = None \<Longrightarrow> QPixmap files image_path = null_pixmap"
  by (simp add: QPixmap_def)

lemma do_call_keeps_failed_image:
  "keeps_failed_image files c \<Longrightarrow> crosshair_image s = Some null_pixmap \<Longrightarrow>
   crosshair_image (do_call files s c) = Some null_pixmap"
  by (cases c) (simp_all add: overlay_defs QPixmap_failed)

lemma run_keeps_failed_image:
  "list_all (keeps_failed_image files) cs \<Longrightarrow> crosshair_image s = Some null_pixmap \<Longrightarrow>
   crosshair_image (run files s cs) = Some null_pixmap"
  unfolding run_def
  by (induction cs arbitrary: s) (simp_all add: do_call_keeps_failed_image)

lemma paintEvent_null_image:
  assumes "crosshair_visible t" and "crosshair_image t = Some null_pixmap"
  shows "paintEvent t =
           Returned
             [DrawPixmap (moveCenter (pixmap_rect null_pixmap) (center (widget_rect t)))
                null_pixmap] \<and>
         filter draws (drawn (paintEvent t)) = [] \<and>
         filter is_line (drawn (paintEvent t)) = []"
  using assms by (simp add: paintEvent_image null_pixmap_isNull)

lemma stroke_pen_alpha:
  "isValid (color s) \<longrightarrow> alpha (color s) \<noteq> 0 \<Longrightarrow> alpha (pen_color (stroke_pen s)) \<noteq> 0"
  by (simp add: stroke_pen_def QColor_def)

text \<open>
  C3, as the code has it. Where the file does not decode, \<open>load_custom_crosshair\<close>
  raises nothing: it stores the null pixmap, which the truth test of \<open>paintEvent\<close> takes
  as an image, and calls \<open>update()\<close>. After any further calls that are neither a reset
  nor a load of a file that decodes, the image is still the null pixmap, and with the
  flag on \<open>paintEvent\<close> makes one \<open>drawPixmap\<close> call with it, which draws nothing, and
  no line. An overlay that drew its two lines before the load (thickness and line
  arguments fitting a C \<open>int\<close>, the pen not of alpha 0) draws nothing after it.
\<close>

theorem failed_load_draws_nothing:
  assumes "files image_path = None" and "list_all (keeps_failed_image files) cs"
  shows "load_custom_crosshair files s image_path =
           s\<lparr>crosshair_image := Some null_pixmap, update_calls := Suc (update_calls s)\<rparr> \<and>
         isNull null_pixmap \<and> truthy (Some null_pixmap) \<and>
         crosshair_image (run files (load_custom_crosshair files s image_path) cs) =
           Some null_pixmap \<and>
         (crosshair_visible (run files (load_custom_crosshair files s image_path) cs) \<longrightarrow>
            paintEvent (run files (load_custom_crosshair files s image_path) cs) =
              Returned
                [DrawPixmap
                   (moveCenter (pixmap_rect null_pixmap)
                      (center (widget_rect (run files (load_custom_crosshair files s image_path) cs))))
                   null_pixmap] \<and>
            filter draws
              (drawn (paintEvent (run files (load_custom_crosshair files s image_path) cs))) = [] \<and>
            filter is_line
              (drawn (paintEvent (run files (load_custom_crosshair files s image_path) cs))) = []) \<and>
         (crosshair_visible s \<longrightarrow> crosshair_image s = None \<longrightarrow>
            (c_int (thickness s) \<longrightarrow> horizontal_fits s \<longrightarrow> vertical_fits s \<longrightarrow>
             (isValid (color s) \<longrightarrow> alpha (color s) \<noteq> 0) \<longrightarrow>
               length (filter draws (drawn (paintEvent s))) = 2) \<and>
            filter draws (drawn (paintEvent (load_custom_crosshair files s image_path))) = [])"
proof -
  define s' where "s' = load_custom_crosshair files s image_path"
  have l: "s' = s\<lparr>crosshair_image := Some null_pixmap, update_calls := Suc (update_calls s)\<rparr>"
    using assms(1) by (simp add: s'_def load_custom_crosshair_def update_widget_def QPixmap_failed)
  then have i: "crosshair_image s' = Some null_pixmap" by simp
  have k: "crosshair_image (run files s' cs) = Some null_pixmap"
    using assms(2) i by (rule run_keeps_failed_image)
  have p: "crosshair_visible (run files s' cs) \<longrightarrow>
            paintEvent (run files s' cs) =
              Returned
                [DrawPixmap
                   (moveCenter (pixmap_rect null_pixmap) (center (widget_rect (run files s' cs))))
                   null_pixmap] \<and>
            filter draws (drawn (paintEvent (run files s' cs))) = [] \<and>
            filter is_line (drawn (paintEvent (run files s' cs))) = []"
    using k by (intro impI) (rule paintEvent_null_image)
  have q: "crosshair_visible s \<longrightarrow> crosshair_image s = None \<longrightarrow>
            (c_int (thickness s) \<longrightarrow> horizontal_fits s \<longrightarrow> vertical_fits s \<longrightarrow>
             (isValid (color s) \<longrightarrow> alpha (color s) \<noteq> 0) \<longrightarrow>
               length (filter draws (drawn (paintEvent s))) = 2) \<and>
            filter draws (drawn (paintEvent s')) = []"
  proof (intro impI conjI)
    assume v: "crosshair_visible s" and n: "crosshair_image s = None"
    have "crosshair_visible s'" using v by (simp add: l)
    then show "filter draws (drawn (paintEvent s')) = []"
      using i by (rule paintEvent_null_image [THEN conjunct2, THEN conjunct1])
    show "length (filter draws (drawn (paintEvent s))) = 2"
      if r: "c_int (thickness s)" "horizontal_fits s" "vertical_fits s"
        and a: "isValid (color s) \<longrightarrow> alpha (color s) \<noteq> 0"
      using stroke_pen_alpha [OF a] by (simp add: paintEvent_lines [OF v n r])
  qed
  from l null_pixmap_isNull k p q show ?thesis
    unfolding s'_def by simp
qed

theorem failed_load_draws_nothing_witness:
  "example_files ''bad.png'' = None \<and>
   list_all (keeps_failed_image example_files) [SetSize 40, Load ''worse.png'', Toggle True, Tick] \<and>
   crosshair_visible
     (run example_files (load_custom_crosshair example_files example_overlay ''bad.png'')
        [SetSize 40, Load ''worse.png'', Toggle True, Tick]) \<and>
   filter draws (drawn (paintEvent
     (run example_files (load_custom_crosshair example_files example_overlay ''bad.png'')
        [SetSize 40, Load ''worse.png'', Toggle True, Tick]))) = [] \<and>
   crosshair_image
     (run example_files (load_custom_crosshair example_files example_overlay ''bad.png'')
        [SetSize 40, Load ''worse.png'', Toggle True, Tick]) = Some null_pixmap \<and>
   crosshair_visible (toggle_crosshair example_overlay True) \<and>
   crosshair_image (toggle_crosshair example_overlay True) = None \<and>
   length (filter draws (drawn (paintEvent (toggle_crosshair example_overlay True)))) = 2 \<and>
   filter draws (drawn (paintEvent
     (load_custom_crosshair example_files (toggle_crosshair example_overlay True) ''bad.png''))) = []"
proof -
  define cs where "cs = [SetSize 40, Load ''worse.png'', Toggle True, Tick]"
  define s0 where "s0 = toggle_crosshair example_overlay True"
  have f: "example_files ''bad.png'' = None"
    by (simp add: example_files_def)
  have k: "list_all (keeps_failed_image example_files) cs"
    by (simp add: cs_def example_files_def)
  have v: "crosshair_visible
     (run example_files (load_custom_crosshair example_files example_overlay ''bad.png'') cs)"
    by (simp add: cs_def run_def overlay_defs)
  have v0: "crosshair_visible s0" and i0: "crosshair_image s0 = None"
    and f0: "color s0 = QColor 255 0 0 255" "thickness s0 = 2" "size_val s0 = 15"
            "geo_width s0 = 1920" "geo_height s0 = 1080"
    by (simp_all add: s0_def example_overlay_def init_widget_def overlay_defs)
  have g0: "c_int (thickness s0)" "horizontal_fits s0" "vertical_fits s0"
    "isValid (color s0) \<longrightarrow> alpha (color s0) \<noteq> 0"
    by (simp_all add: f0 horizontal_fits_def vertical_fits_def c_int_def QColor_def)
  have k0: "list_all (keeps_failed_image example_files) []"
    by simp
  note a = failed_load_draws_nothing [of example_files "''bad.png''" cs example_overlay, OF f k]
  note b = failed_load_draws_nothing [of example_files "''bad.png''" "[]" s0, OF f k0]
  note a4 = a [THEN conjunct2, THEN conjunct2, THEN conjunct2]
  note b5 = b [THEN conjunct2, THEN conjunct2, THEN conjunct2, THEN conjunct2, THEN conjunct2,
               THEN mp, THEN mp, OF v0 i0]
  have 1: "filter draws (drawn (paintEvent
     (run example_files (load_custom_crosshair example_files example_overlay ''bad.png'') cs))) = []"
    using a4 [THEN conjunct2, THEN conjunct1, THEN mp, OF v, THEN conjunct2, THEN conjunct1] .
  have 2: "crosshair_image
     (run example_files (load_custom_crosshair example_files example_overlay ''bad.png'') cs) =
       Some null_pixmap"
    using a4 by (rule conjunct1)
  have 3: "length (filter draws (drawn (paintEvent s0))) = 2"
    using b5 [THEN conjunct1, THEN mp, THEN mp, THEN mp, THEN mp, OF g0] .
  have 4: "filter draws (drawn (paintEvent
     (load_custom_crosshair example_files s0 ''bad.png''))) = []"
    using b5 by (rule conjunct2)
  from f k v 1 2 v0 i0 3 4 show ?thesis
    unfolding cs_def s0_def by (intro conjI)
qed

text \<open>
  C3, as the claim states it, fails: after a load that does not decode, a load of a
  file that decodes replaces the null pixmap, with no reset in between, and the next
  paint with the flag on draws that image.
\<close>

theorem failed_load_draws_nothing_counterexample:
  "example_files ''bad.png'' = None \<and>
   Reset \<notin> set [Load ''good.png'', Toggle True] \<and>
   crosshair_visible
     (run example_files (load_custom_crosshair example_files example_overlay ''bad.png'')
        [Load ''good.png'', Toggle True]) \<and>
   filter draws (drawn (paintEvent
     (run example_files (load_custom_crosshair example_files example_overlay ''bad.png'')
        [Load ''good.png'', Toggle True]))) =
     [DrawPixmap \<lparr>r_left = 944, r_top = 524, r_right = 975, r_bottom = 555\<rparr>
        \<lparr>pm_width = 32, pm_height = 32, pm_data = 1\<rparr>]"
proof -
  define t where
    "t = run example_files (load_custom_crosshair example_files example_overlay ''bad.png'')
           [Load ''good.png'', Toggle True]"
  define img where "img = \<lparr>pm_width = 32, pm_height = 32, pm_data = 1\<rparr>"
  have f: "example_files ''bad.png'' = None"
    by (simp add: example_files_def)
  have v: "crosshair_visible t" and i: "crosshair_image t = Some img"
    and g: "geo_width t = 1920" "geo_height t = 1080"
    by (simp_all add: t_def img_def run_def example_overlay_def init_widget_def overlay_defs
          QPixmap_def example_files_def)
  have r: "moveCenter (pixmap_rect img) (center (widget_rect t)) =
           \<lparr>r_left = 944, r_top = 524, r_right = 975, r_bottom = 555\<rparr>"
    by (simp add: moveCenter_def pixmap_rect_def center_def widget_rect_def QRect_def
          cdiv2_def img_def g Let_def)
  have "paintEvent t =
      Returned [DrawPixmap (moveCenter (pixmap_rect img) (center (widget_rect t))) img]"
    using v i by (rule paintEvent_image)
  then have "paintEvent t =
      Returned [DrawPixmap \<lparr>r_left = 944, r_top = 524, r_right = 975, r_bottom = 555\<rparr> img]"
    by (simp only: r)
  then have "filter draws (drawn (paintEvent t)) =
      [DrawPixmap \<lparr>r_left = 944, r_top = 524, r_right = 975, r_bottom = 555\<rparr> img]"
    by (simp add: img_def isNull_def)
  with f v show ?thesis
    unfolding t_def img_def by simp
qed

section \<open>The settings panel\<close>

text \<open>
  C9. \<open>update_fov\<close> replaces the text of the FOV label and leaves the overlay and every
  other attribute of the panel as they were.
\<close>

theorem update_fov_only_label:
  "update_fov ui v = ui\<lparr>fov_label := ''Field of View (FOV): '' @ str_int v\<rparr> \<and>
   crosshair_overlay (update_fov ui v) = crosshair_overlay ui \<and>
   size_label (update_fov ui v) = size_label ui \<and>
   size_slider (update_fov ui v) = size_slider ui \<and>
   thickness_label (update_fov ui v) = thickness_label ui \<and>
   thickness_slider (update_fov ui v) = thickness_slider ui \<and>
   fov_slider (update_fov ui v) = fov_slider ui \<and>
   crosshair_button_text (update_fov ui v) = crosshair_button_text ui \<and>
   crosshair_button_checked (update_fov ui v) = crosshair_button_checked ui \<and>
   crosshair_overlay (handle files ui (FovSlider v)) = crosshair_overlay ui"
  by (simp add: update_fov_def)

text \<open>
  C7. With an invalid colour from the colour dialog, and with the empty path from the
  file dialog, the handler returns the panel and its overlay unchanged. With a valid
  colour it calls \<open>set_color\<close> with that colour, with a non-empty path
  \<open>load_custom_crosshair\<close> with that path, and changes nothing else.
\<close>

theorem cancelled_dialogs_change_nothing:
  "(\<not> isValid c \<longrightarrow> choose_color ui c = ui) \<and>
   (isValid c \<longrightarrow>
      choose_color ui c = ui\<lparr>crosshair_overlay := set_color (crosshair_overlay ui) c\<rparr>) \<and>
   upload_custom_crosshair files ui [] = ui \<and>
   (file_path \<noteq> [] \<longrightarrow>
      upload_custom_crosshair files ui file_path =
        ui\<lparr>crosshair_overlay := load_custom_crosshair files (crosshair_overlay ui) file_path\<rparr>)"
  by (simp add: choose_color_def upload_custom_crosshair_def)

theorem cancelled_dialogs_change_nothing_witness:
  "\<not> isValid cancelled_color \<and> isValid blue_color \<and> ''good.png'' \<noteq> [] \<and>
   choose_color (init_ui example_overlay) cancelled_color = init_ui example_overlay \<and>
   color (crosshair_overlay (choose_color (init_ui example_overlay) blue_color)) = blue_color \<and>
   crosshair_image (crosshair_overlay
      (upload_custom_crosshair example_files (init_ui example_overlay) ''good.png'')) =
     Some \<lparr>pm_width = 32, pm_height = 32, pm_data = 1\<rparr>"
proof -
  have a: "\<not> isValid cancelled_color" by (simp add: cancelled_color_def)
  have b: "isValid blue_color" by (simp add: blue_color_def QColor_def)
  have p: "''good.png'' \<noteq> []" by simp
  have 1: "choose_color (init_ui example_overlay) cancelled_color = init_ui example_overlay"
    using cancelled_dialogs_change_nothing [of cancelled_color "init_ui example_overlay"] a by simp
  have 2: "color (crosshair_overlay (choose_color (init_ui example_overlay) blue_color)) = blue_color"
    using cancelled_dialogs_change_nothing [of blue_color "init_ui example_overlay"] b
    by (simp add: set_color_def update_widget_def)
  have 3: "crosshair_image (crosshair_overlay
      (upload_custom_crosshair example_files (init_ui example_overlay) ''good.png'')) =
     Some \<lparr>pm_width = 32, pm_height = 32, pm_data = 1\<rparr>"
    using cancelled_dialogs_change_nothing [of _ "init_ui example_overlay" example_files "''good.png''"] p
    by (simp add: load_custom_crosshair_def update_widget_def QPixmap_def example_files_def)
  from a b p 1 2 3 show ?thesis by (intro conjI)
qed

section \<open>The visibility flag\<close>

lemma handle_visible:
  "e \<noteq> EnableClicked \<Longrightarrow>
   crosshair_visible (crosshair_overlay (handle files ui e)) =
     crosshair_visible (crosshair_overlay ui)"
  by (cases e) (simp_all add: ui_defs overlay_defs Let_def)

lemma do_call_visible:
  "c \<notin> {Toggle True, Toggle False} \<Longrightarrow>
   crosshair_visible (do_call files s c) = crosshair_visible s"
  by (cases c) (auto simp add: overlay_defs)

lemma session_visible:
  "EnableClicked \<notin> set es \<Longrightarrow>
   crosshair_visible (crosshair_overlay (session files ui es)) =
     crosshair_visible (crosshair_overlay ui)"
proof (induction es arbitrary: ui)
  case Nil
  then show ?case by (simp add: session_def)
next
  case (Cons e es)
  have ne: "e \<noteq> EnableClicked" and rest: "EnableClicked \<notin> set es"
    using Cons.prems by auto
  have "session files ui (e # es) = session files (handle files ui e) es"
    by (simp add: session_def)
  then show ?case
    using Cons.IH [OF rest, of "handle files ui e"] by (simp add: handle_visible [OF ne])
qed

lemma session_stays_hidden:
  "EnableClicked \<notin> set es \<Longrightarrow> \<not> crosshair_visible (crosshair_overlay ui) \<Longrightarrow>
   TimerTick \<in> set es \<or> \<not> shown (crosshair_overlay ui) \<Longrightarrow>
   \<not> crosshair_visible (crosshair_overlay (session files ui es)) \<and>
   \<not> shown (crosshair_overlay (session files ui es))"
proof (induction es arbitrary: ui)
  case Nil
  then show ?case by (simp add: session_def)
next
  case (Cons e es)
  have ne: "e \<noteq> EnableClicked" and rest: "EnableClicked \<notin> set es"
    using Cons.prems(1) by auto
  have v: "\<not> crosshair_visible (crosshair_overlay (handle files ui e))"
    using Cons.prems(2) by (simp add: handle_visible [OF ne])
  have t: "TimerTick \<in> set es \<or> \<not> shown (crosshair_overlay (handle files ui e))"
  proof (cases "e = TimerTick")
    case True
    then show ?thesis using Cons.prems(2) by (simp add: update_overlay_def hide_widget_def)
  next
    case False
    then show ?thesis using Cons.prems(3) by (auto simp add: handle_shown)
  qed
  have "session files ui (e # es) = session files (handle files ui e) es"
    by (simp add: session_def)
  then show ?case using Cons.IH [OF rest v t] by simp
qed

lemma main_init_overlay: "crosshair_overlay (main_init dw dh) = init_widget dw dh"
  by (simp add: main_init_def init_ui_def)

lemma init_widget_flag:
  "\<not> crosshair_visible (init_widget dw dh) \<and> shown (init_widget dw dh)"
  by (simp add: init_widget_def overlay_defs)

text \<open>
  C5, as the code has it. The constructor leaves the flag off and the window shown,
  since it ends with \<open>show()\<close>; \<open>paintEvent\<close> draws nothing then. A tick shows the
  window when the flag is on and hides it when it is off, and leaves the flag alone.
  As long as the enable button is not clicked the flag stays off, and from the first
  tick on the window is hidden. No event of the panel but the click of the enable
  button, and no call on the overlay but \<open>toggle_crosshair\<close>, changes the flag; the
  click sets it to the button's new checked state.
\<close>

theorem visibility_flag_lifecycle:
  "\<not> crosshair_visible (init_widget dw dh) \<and>
   shown (init_widget dw dh) \<and>
   paintEvent (init_widget dw dh) = Returned [] \<and>
   shown (update_overlay s) = crosshair_visible s \<and>
   crosshair_visible (update_overlay s) = crosshair_visible s \<and>
   (EnableClicked \<notin> set es \<longrightarrow>
      \<not> crosshair_visible (crosshair_overlay (session files (main_init dw dh) es)) \<and>
      (TimerTick \<in> set es \<longrightarrow>
         \<not> shown (crosshair_overlay (session files (main_init dw dh) es)))) \<and>
   (e \<noteq> EnableClicked \<longrightarrow>
      crosshair_visible (crosshair_overlay (handle files ui e)) =
        crosshair_visible (crosshair_overlay ui)) \<and>
   (c \<notin> {Toggle True, Toggle False} \<longrightarrow>
      crosshair_visible (do_call files s c) = crosshair_visible s) \<and>
   crosshair_visible (crosshair_overlay (handle files ui EnableClicked)) =
     (\<not> crosshair_button_checked ui)"
proof -
  note i = init_widget_flag [of dw dh]
  have p: "paintEvent (init_widget dw dh) = Returned []"
    using i by (simp add: paintEvent_hidden)
  have u: "shown (update_overlay s) = crosshair_visible s \<and>
           crosshair_visible (update_overlay s) = crosshair_visible s"
    by (simp add: update_overlay_def show_widget_def hide_widget_def)
  have a: "\<not> crosshair_visible (crosshair_overlay (session files (main_init dw dh) es))"
    if "EnableClicked \<notin> set es"
    using session_visible [OF that, of files "main_init dw dh"] i
    by (simp add: main_init_overlay)
  have b: "\<not> shown (crosshair_overlay (session files (main_init dw dh) es))"
    if "EnableClicked \<notin> set es" "TimerTick \<in> set es"
    using session_stays_hidden [of es "main_init dw dh" files] that i
    by (simp add: main_init_overlay)
  have t: "crosshair_visible (crosshair_overlay (handle files ui EnableClicked)) =
     (\<not> crosshair_button_checked ui)"
    by (simp add: ui_toggle_crosshair_def toggle_crosshair_def)
  from i p u a b t show ?thesis
    by (simp add: handle_visible do_call_visible)
qed

theorem visibility_flag_lifecycle_witness:
  "EnableClicked \<notin> set [SizeSlider 40, TimerTick, FileDialog ''good.png'', RemoveClicked] \<and>
   TimerTick \<in> set [SizeSlider 40, TimerTick, FileDialog ''good.png'', RemoveClicked] \<and>
   SizeSlider 40 \<noteq> EnableClicked \<and>
   SetSize 40 \<notin> {Toggle True, Toggle False} \<and>
   \<not> shown (crosshair_overlay (session example_files (main_init 1920 1080)
       [SizeSlider 40, TimerTick, FileDialog ''good.png'', RemoveClicked])) \<and>
   \<not> crosshair_visible (crosshair_overlay (session example_files (main_init 1920 1080)
       [SizeSlider 40, TimerTick, FileDialog ''good.png'', RemoveClicked])) \<and>
   crosshair_visible (crosshair_overlay
       (handle example_files (main_init 1920 1080) (SizeSlider 40))) =
     crosshair_visible (crosshair_overlay (main_init 1920 1080)) \<and>
   crosshair_visible (do_call example_files example_overlay (SetSize 40)) =
     crosshair_visible example_overlay \<and>
   crosshair_visible (crosshair_overlay (handle example_files (main_init 1920 1080) EnableClicked))"
proof -
  define es where "es = [SizeSlider 40, TimerTick, FileDialog ''good.png'', RemoveClicked]"
  have h1: "EnableClicked \<notin> set es" and h2: "TimerTick \<in> set es"
    by (simp_all add: es_def)
  have h3: "SizeSlider 40 \<noteq> EnableClicked" by simp
  have h4: "SetSize 40 \<notin> {Toggle True, Toggle False}" by simp
  have h5: "\<not> crosshair_button_checked (main_init 1920 1080)"
    by (simp add: main_init_def init_ui_def)
  note t = visibility_flag_lifecycle [of 1920 1080 example_overlay es example_files "SizeSlider 40"
                 "main_init 1920 1080" "SetSize 40"]
  from t h1 h2 h3 h4 h5 show ?thesis
    unfolding es_def by simp
qed

text \<open>
  C5, as the claim states it, fails: straight after construction the flag is off and
  the window is shown.
\<close>

theorem visibility_flag_lifecycle_counterexample:
  "\<not> crosshair_visible (fst (CrosshairOverlay_init 1920 1080 7 example_windows)) \<and>
   shown (fst (CrosshairOverlay_init 1920 1080 7 example_windows))"
  by (simp add: CrosshairOverlay_init_def init_widget_def overlay_defs)

end
